theory Spec2Isabelle
  imports Complex_Main "HOL-Library.Log_Nat" "HOL-Library.Multiset"
begin

section \<open>Python primitives used by the caption and template services\<close>

text \<open>
  Strings are lists of ASCII characters, Python ints are \<open>int\<close>.
\<close>

subsection \<open>Numbers\<close>

text \<open>
  A Python float is an IEEE binary64 number.  It is modelled by the rational it
  denotes; \<open>fl\<close> rounds an exact result to the nearest number with a 53-bit
  significand, ties to the even significand, as each float operation does.
  Infinities, NaN, overflow and subnormal numbers are outside the model.
\<close>

definition pow2 :: "int \<Rightarrow> rat" where
  "pow2 e = (if 0 \<le> e then 2 ^ nat e else 1 / 2 ^ nat (- e))"

text \<open>\<^verbatim>\<open>int(x)\<close> on a float truncates toward zero.\<close>

definition py_int :: "rat \<Rightarrow> int" where
  "py_int x = (if x < 0 then \<lceil>x\<rceil> else \<lfloor>x\<rfloor>)"

text \<open>\<^verbatim>\<open>round(x)\<close> with one argument rounds to the nearest integer, ties to
  the even neighbour.\<close>

definition py_round :: "rat \<Rightarrow> int" where
  "py_round x =
     (let f = \<lfloor>x\<rfloor>; d = x - of_int f
      in if d < 1 / 2 then f
         else if 1 / 2 < d then f + 1
         else if even f then f else f + 1)"

definition fl :: "rat \<Rightarrow> rat" where
  "fl q =
     (if q = 0 then 0
      else let (a, b) = quotient_of \<bar>q\<bar>;
               e0 = bitlen a - bitlen b;
               e = (if pow2 e0 \<le> \<bar>q\<bar> then e0 else e0 - 1);
               u = pow2 (e - 52)
           in sgn q * of_int (py_round (\<bar>q\<bar> / u)) * u)"

text \<open>Float subtraction and multiplication: the exact result, rounded.\<close>

definition fsub :: "rat \<Rightarrow> rat \<Rightarrow> rat" where
  "fsub x y = fl (x - y)"

definition fmul :: "rat \<Rightarrow> rat \<Rightarrow> rat" where
  "fmul x y = fl (x * y)"

text \<open>C's \<^verbatim>\<open>fmod\<close> is exact and takes the sign of the dividend.\<close>

definition fmod :: "rat \<Rightarrow> rat \<Rightarrow> rat" where
  "fmod x y = x - y * of_int (py_int (x / y))"

text \<open>\<^verbatim>\<open>x // y\<close> and \<^verbatim>\<open>x % y\<close> on floats, the way the interpreter
  computes them from \<^verbatim>\<open>fmod\<close>; every call site divides by a non-zero literal
  (3600, 60 or 1), so the ZeroDivisionError branch is never taken.\<close>

definition float_divmod :: "rat \<Rightarrow> rat \<Rightarrow> rat \<times> rat" where
  "float_divmod vx wx =
     (let mod0 = fmod vx wx;
          div0 = fl (fl (vx - mod0) / wx);
          adjust = (mod0 \<noteq> 0 \<and> ((wx < 0) \<noteq> (mod0 < 0)));
          md = (if adjust then fl (mod0 + wx) else mod0);
          dv = (if adjust then fl (div0 - 1) else div0);
          f = of_int \<lfloor>dv\<rfloor>;
          floordiv = (if dv = 0 then 0 else if 1 / 2 < dv - f then fl (f + 1) else f)
      in (floordiv, md))"

definition py_floordiv :: "rat \<Rightarrow> rat \<Rightarrow> rat" where
  "py_floordiv x y = fst (float_divmod x y)"

definition py_mod :: "rat \<Rightarrow> rat \<Rightarrow> rat" where
  "py_mod x y = snd (float_divmod x y)"

subsection \<open>Number formatting\<close>

definition digit_char :: "nat \<Rightarrow> char" where
  "digit_char d = ''0123456789ABCDEF'' ! d"

fun str_nat :: "nat \<Rightarrow> string" where
  "str_nat n = (if n < 10 then [digit_char n] else str_nat (n div 10) @ [digit_char (n mod 10)])"

declare str_nat.simps [simp del]

fun hex_nat :: "nat \<Rightarrow> string" where
  "hex_nat n = (if n < 16 then [digit_char n] else hex_nat (n div 16) @ [digit_char (n mod 16)])"

declare hex_nat.simps [simp del]

text \<open>\<^verbatim>\<open>str(n)\<close> and \<^verbatim>\<open>f"{n}"\<close> for an int.\<close>

definition str_int :: "int \<Rightarrow> string" where
  "str_int n = (if n < 0 then CHR ''-'' # str_nat (nat (- n)) else str_nat (nat n))"

definition zfill :: "nat \<Rightarrow> string \<Rightarrow> string" where
  "zfill w s = replicate (w - length s) CHR ''0'' @ s"

text \<open>\<^verbatim>\<open>f"{n:0wd}"\<close> and \<^verbatim>\<open>f"{n:0wX}"\<close>: the sign, then zeros up to the width.\<close>

definition fmt_0d :: "nat \<Rightarrow> int \<Rightarrow> string" where
  "fmt_0d w n =
     (if n < 0 then CHR ''-'' # zfill (w - 1) (str_nat (nat (- n)))
      else zfill w (str_nat (nat n)))"

definition fmt_0X :: "nat \<Rightarrow> int \<Rightarrow> string" where
  "fmt_0X w n =
     (if n < 0 then CHR ''-'' # zfill (w - 1) (hex_nat (nat (- n)))
      else zfill w (hex_nat (nat n)))"

subsection \<open>Strings\<close>

text \<open>The characters \<^verbatim>\<open>str.strip()\<close> removes (ASCII range).\<close>

definition is_space :: "char \<Rightarrow> bool" where
  "is_space c = (c \<in> set [CHR 0x09, CHR 0x0A, CHR 0x0B, CHR 0x0C, CHR 0x0D,
                             CHR 0x1C, CHR 0x1D, CHR 0x1E, CHR 0x1F, CHR 0x20])"

definition lstrip :: "string \<Rightarrow> string" where
  "lstrip s = dropWhile is_space s"

definition strip :: "string \<Rightarrow> string" where
  "strip s = rev (dropWhile is_space (rev (dropWhile is_space s)))"

definition startswith :: "string \<Rightarrow> string \<Rightarrow> bool" where
  "startswith s p = (take (length p) s = p)"

text \<open>\<^verbatim>\<open>sep.join(xs)\<close>.\<close>

fun join :: "string \<Rightarrow> string list \<Rightarrow> string" where
  "join sep [] = []"
| "join sep [x] = x"
| "join sep (x # y # ys) = x @ sep @ join sep (y # ys)"



text \<open>\<^verbatim>\<open>s[i:j]\<close>: negative bounds count from the end, bounds are clipped.\<close>

definition py_slice :: "'a list \<Rightarrow> int \<Rightarrow> int \<Rightarrow> 'a list" where
  "py_slice s i j =
     (let n = int (length s);
          lo = (if i < 0 then max 0 (n + i) else min i n);
          hi = (if j < 0 then max 0 (n + j) else min j n)
      in take (nat (hi - lo)) (drop (nat lo) s))"

text \<open>\<^verbatim>\<open>s.replace("\n", "\\N")\<close>.\<close>

definition replace_newline :: "string \<Rightarrow> string" where
  "replace_newline s = concat (map (\<lambda>c. if c = CHR 0x0A then [CHR 0x5C, CHR ''N''] else [c]) s)"

subsection \<open>Exceptions\<close>

datatype py_error =
    ValueError
  | TypeError
  | AttributeError
  | IndexError
  | KeyError
  | HTTPStatusError
  | FFmpegError string
  | IOError

subsection \<open>Parsing numbers\<close>

definition is_digit :: "char \<Rightarrow> bool" where
  "is_digit c = (48 \<le> (of_char c :: nat) \<and> (of_char c :: nat) \<le> 57)"

definition hex_val :: "char \<Rightarrow> nat option" where
  "hex_val c =
     (let n = (of_char c :: nat)
      in if 48 \<le> n \<and> n \<le> 57 then Some (n - 48)
         else if 65 \<le> n \<and> n \<le> 70 then Some (n - 55)
         else if 97 \<le> n \<and> n \<le> 102 then Some (n - 87)
         else None)"

definition digits_val :: "string \<Rightarrow> nat" where
  "digits_val ds = foldl (\<lambda>a c. 10 * a + ((of_char c :: nat) - 48)) 0 ds"

definition hex_digits_val :: "string \<Rightarrow> nat" where
  "hex_digits_val ds = foldl (\<lambda>a c. 16 * a + (case hex_val c of Some v \<Rightarrow> v | None \<Rightarrow> 0)) 0 ds"

text \<open>An optional sign in front of a literal.\<close>

definition split_sign :: "string \<Rightarrow> bool \<times> string" where
  "split_sign s =
     (case s of
        [] \<Rightarrow> (False, [])
      | c # r \<Rightarrow> if c = CHR ''-'' then (True, r)
                 else if c = CHR ''+'' then (False, r)
                 else (False, s))"

text \<open>\<^verbatim>\<open>int(s, 16)\<close> on the slices of at most two characters the colour
  conversion passes: surrounding white space stripped, an optional sign, then hex
  digits only; anything else raises ValueError.\<close>

definition py_int16 :: "string \<Rightarrow> py_error + int" where
  "py_int16 s =
     (let (neg, ds) = split_sign (strip s)
      in if ds = [] \<or> \<not> list_all (\<lambda>c. hex_val c \<noteq> None) ds then Inl ValueError
         else Inr ((if neg then - 1 else 1) * int (hex_digits_val ds)))"

text \<open>\<^verbatim>\<open>float(s)\<close> on a decimal literal: white space stripped, an optional
  sign, digits with an optional fraction and an optional exponent; the value is
  the nearest float.  The literals \<^verbatim>\<open>inf\<close> and \<^verbatim>\<open>nan\<close> and
  underscores between digits are outside the model.\<close>

definition parse_exponent :: "string \<Rightarrow> int option" where
  "parse_exponent r =
     (case r of
        [] \<Rightarrow> Some 0
      | c # r' \<Rightarrow>
          if c = CHR ''e'' \<or> c = CHR ''E''
          then (let (neg, ds) = split_sign r'
                in if ds = [] \<or> \<not> list_all is_digit ds then None
                   else Some ((if neg then - 1 else 1) * int (digits_val ds)))
          else None)"

definition pow10 :: "int \<Rightarrow> rat" where
  "pow10 e = (if 0 \<le> e then 10 ^ nat e else 1 / 10 ^ nat (- e))"

definition py_float :: "string \<Rightarrow> py_error + rat" where
  "py_float s =
     (let (neg, body) = split_sign (strip s);
          ip = takeWhile is_digit body;
          r1 = dropWhile is_digit body;
          has_dot = (r1 \<noteq> [] \<and> hd r1 = CHR ''.'');
          fp = (if has_dot then takeWhile is_digit (tl r1) else []);
          r2 = (if has_dot then dropWhile is_digit (tl r1) else r1)
      in if ip = [] \<and> fp = [] then Inl ValueError
         else (case parse_exponent r2 of
                 None \<Rightarrow> Inl ValueError
               | Some ex \<Rightarrow>
                   Inr (fl ((if neg then - 1 else 1)
                            * (of_nat (digits_val ip) + of_nat (digits_val fp) / 10 ^ length fp)
                            * pow10 ex))))"


section \<open>Caption service: time stamps\<close>

text \<open>\<^verbatim>\<open>CaptionService._format_time_srt\<close>, \<^verbatim>\<open>_format_time_vtt\<close>,
  \<^verbatim>\<open>_format_time_ass\<close>.\<close>

definition format_time_srt :: "rat \<Rightarrow> string" where
  "format_time_srt seconds =
     (let hours = py_int (py_floordiv seconds 3600);
          minutes = py_int (py_floordiv (py_mod seconds 3600) 60);
          secs = py_int (py_mod seconds 60);
          millis = py_int (fmul (py_mod seconds 1) 1000)
      in fmt_0d 2 hours @ '':'' @ fmt_0d 2 minutes @ '':'' @ fmt_0d 2 secs @ '','' @ fmt_0d 3 millis)"

definition format_time_vtt :: "rat \<Rightarrow> string" where
  "format_time_vtt seconds =
     (let hours = py_int (py_floordiv seconds 3600);
          minutes = py_int (py_floordiv (py_mod seconds 3600) 60);
          secs = py_int (py_mod seconds 60);
          millis = py_int (fmul (py_mod seconds 1) 1000)
      in fmt_0d 2 hours @ '':'' @ fmt_0d 2 minutes @ '':'' @ fmt_0d 2 secs @ ''.'' @ fmt_0d 3 millis)"

definition format_time_ass :: "rat \<Rightarrow> string" where
  "format_time_ass seconds =
     (let hours = py_int (py_floordiv seconds 3600);
          minutes = py_int (py_floordiv (py_mod seconds 3600) 60);
          secs = py_int (py_mod seconds 60);
          centis = py_int (fmul (py_mod seconds 1) 100)
      in str_int hours @ '':'' @ fmt_0d 2 minutes @ '':'' @ fmt_0d 2 secs @ ''.'' @ fmt_0d 2 centis)"

section \<open>Caption service: segments and exports\<close>

text \<open>
  A word of a segment is the dict \<^verbatim>\<open>{"word": .., "start": .., "end": ..}\<close> that
  \<^verbatim>\<open>process_transcription\<close> stores; a field is \<open>None\<close> when the key is
  missing (for \<^verbatim>\<open>"word"\<close>: missing or null).  A segment follows
  \<^verbatim>\<open>CaptionSegmentSchema\<close>.
\<close>

record word =
  w_word :: "string option"
  w_start :: "rat option"
  w_end :: "rat option"

record segment =
  segment_index :: int
  start_time :: rat
  end_time :: rat
  seg_text :: string
  text_english :: "string option"
  words :: "word list option"

text \<open>The truth value of \<^verbatim>\<open>segment.get("text_english")\<close> and of
  \<^verbatim>\<open>segment.get("words")\<close>.\<close>

definition truthy_str :: "string option \<Rightarrow> bool" where
  "truthy_str v = (case v of None \<Rightarrow> False | Some s \<Rightarrow> s \<noteq> [])"

definition truthy_list :: "'a list option \<Rightarrow> bool" where
  "truthy_list v = (case v of None \<Rightarrow> False | Some xs \<Rightarrow> xs \<noteq> [])"

text \<open>The four lines one segment adds in \<^verbatim>\<open>_generate_srt\<close> and
  \<^verbatim>\<open>_generate_vtt\<close>; \<open>i\<close> is the 1-based cue number.\<close>

definition srt_cue :: "bool \<Rightarrow> nat \<Rightarrow> segment \<Rightarrow> string list" where
  "srt_cue include_translation i segment =
     (let start = format_time_srt (start_time segment);
          end = format_time_srt (end_time segment);
          txt = (if include_translation \<and> truthy_str (text_english segment)
                 then seg_text segment @ [CHR 0x0A] @ the (text_english segment)
                 else seg_text segment)
      in [str_nat i, start @ '' --> '' @ end, txt, []])"

definition vtt_cue :: "bool \<Rightarrow> nat \<Rightarrow> segment \<Rightarrow> string list" where
  "vtt_cue include_translation i segment =
     (let start = format_time_vtt (start_time segment);
          end = format_time_vtt (end_time segment);
          txt = (if include_translation \<and> truthy_str (text_english segment)
                 then seg_text segment @ [CHR 0x0A] @ the (text_english segment)
                 else seg_text segment)
      in [str_nat i, start @ '' --> '' @ end, txt, []])"

text \<open>\<^verbatim>\<open>enumerate(xs, k)\<close>.\<close>

definition enumerate_from :: "nat \<Rightarrow> 'a list \<Rightarrow> (nat \<times> 'a) list" where
  "enumerate_from k xs = zip [k ..< k + length xs] xs"

definition generate_srt :: "segment list \<Rightarrow> bool \<Rightarrow> string" where
  "generate_srt segments include_translation =
     join [CHR 0x0A]
       (concat (map (\<lambda>(i, segment). srt_cue include_translation i segment)
                    (enumerate_from 1 segments)))"

definition generate_vtt :: "segment list \<Rightarrow> bool \<Rightarrow> string" where
  "generate_vtt segments include_translation =
     join [CHR 0x0A]
       ([''WEBVTT'', []] @
        concat (map (\<lambda>(i, segment). vtt_cue include_translation i segment)
                    (enumerate_from 1 segments)))"

subsection \<open>Karaoke text\<close>

text \<open>\<^verbatim>\<open>CaptionService._karaoke_text\<close>: the loop over
  \<^verbatim>\<open>enumerate(words)\<close>, \<open>idx\<close> being the index of the head of the list.\<close>

definition word_text :: "word \<Rightarrow> string" where
  "word_text w = strip (case w_word w of None \<Rightarrow> [] | Some s \<Rightarrow> s)"

definition word_dur_cs :: "word \<Rightarrow> int" where
  "word_dur_cs w =
     (let start = (case w_start w of None \<Rightarrow> 0 | Some x \<Rightarrow> x);
          end = (case w_end w of None \<Rightarrow> start | Some x \<Rightarrow> x)
      in max 1 (py_round (fmul (fsub end start) 100)))"

fun karaoke_parts :: "nat \<Rightarrow> word list \<Rightarrow> string list" where
  "karaoke_parts idx [] = []"
| "karaoke_parts idx (w # ws) =
     (let wd = word_text w
      in if wd = [] then karaoke_parts (Suc idx) ws
         else (let dur_cs = word_dur_cs w;
                   prefix = (if idx = 0 then [] else '' '')
               in (''{'' @ [CHR 0x5C] @ ''k'' @ str_int dur_cs @ ''}'' @ prefix @ wd)
                  # karaoke_parts (Suc idx) ws))"

definition karaoke_text :: "word list \<Rightarrow> string" where
  "karaoke_text ws = concat (karaoke_parts 0 ws)"

text \<open>The dialogue line one segment adds in \<^verbatim>\<open>_generate_ass\<close> (explicit
  style settings) and in \<^verbatim>\<open>_generate_ass_from_preset\<close>.\<close>

definition ass_event :: "segment \<Rightarrow> string" where
  "ass_event segment =
     (let start = format_time_ass (start_time segment);
          end = format_time_ass (end_time segment);
          txt = replace_newline (seg_text segment)
      in ''Dialogue: 0,'' @ start @ '','' @ end @ '',Default,,0,0,0,,'' @ txt)"

definition ass_event_preset :: "bool \<Rightarrow> segment \<Rightarrow> string" where
  "ass_event_preset karaoke segment =
     (let start = format_time_ass (start_time segment);
          end = format_time_ass (end_time segment)
      in if karaoke \<and> truthy_list (words segment)
         then ''Dialogue: 0,'' @ start @ '','' @ end @ '',Default,,0,0,0,,''
              @ karaoke_text (the (words segment))
         else ''Dialogue: 0,'' @ start @ '','' @ end @ '',Default,,0,0,0,,''
              @ strip (replace_newline (seg_text segment)))"

section \<open>Caption service: ASS colours\<close>

text \<open>\<^verbatim>\<open>CaptionService._hex_to_ass_color\<close>.\<close>

definition hex_to_ass_color :: "string \<Rightarrow> int \<Rightarrow> py_error + string" where
  "hex_to_ass_color hex_color alpha =
     (let c0 = dropWhile (\<lambda>x. x = CHR ''#'') (if hex_color = [] then ''#FFFFFF'' else hex_color);
          c = (if length c0 \<noteq> 6 then ''FFFFFF'' else c0)
      in case py_int16 (py_slice c 0 2) of Inl e \<Rightarrow> Inl e | Inr r \<Rightarrow>
         (case py_int16 (py_slice c 2 4) of Inl e \<Rightarrow> Inl e | Inr g \<Rightarrow>
         (case py_int16 (py_slice c 4 6) of Inl e \<Rightarrow> Inl e | Inr b \<Rightarrow>
            Inr (''&H'' @ fmt_0X 2 alpha @ fmt_0X 2 b @ fmt_0X 2 g @ fmt_0X 2 r))))"





section \<open>Template service: values\<close>

text \<open>
  Template definitions and customizations are JSON documents (JSONB columns)
  that the service inspects dynamically.  A Python dict is an association list
  in insertion order with distinct keys.
\<close>

datatype json =
    JNull
  | JBool bool
  | JInt int
  | JFloat rat
  | JStr string
  | JList "json list"
  | JDict "(string \<times> json) list"

type_synonym dict = "(string \<times> json) list"

text \<open>The truth value of a Python object.\<close>

fun truthy :: "json \<Rightarrow> bool" where
  "truthy JNull = False"
| "truthy (JBool b) = b"
| "truthy (JInt n) = (n \<noteq> 0)"
| "truthy (JFloat x) = (x \<noteq> 0)"
| "truthy (JStr s) = (s \<noteq> [])"
| "truthy (JList vs) = (vs \<noteq> [])"
| "truthy (JDict kvs) = (kvs \<noteq> [])"

text \<open>\<^verbatim>\<open>a or b\<close> where evaluating \<^verbatim>\<open>b\<close> cannot raise.\<close>

definition py_or :: "json \<Rightarrow> json \<Rightarrow> json" where
  "py_or a b = (if truthy a then a else b)"

text \<open>\<^verbatim>\<open>d.get(k)\<close> and \<^verbatim>\<open>d.get(k, default)\<close> on a dict.\<close>

definition dict_get :: "dict \<Rightarrow> string \<Rightarrow> json" where
  "dict_get d k = (case map_of d k of None \<Rightarrow> JNull | Some v \<Rightarrow> v)"

definition dict_get_default :: "dict \<Rightarrow> string \<Rightarrow> json \<Rightarrow> json" where
  "dict_get_default d k dflt = (case map_of d k of None \<Rightarrow> dflt | Some v \<Rightarrow> v)"

text \<open>\<^verbatim>\<open>v.get(k)\<close> on a value that need not be a dict: only a dict has the
  method.\<close>

definition attr_get :: "json \<Rightarrow> string \<Rightarrow> py_error + json" where
  "attr_get v k = (case v of JDict d \<Rightarrow> Inr (dict_get d k) | _ \<Rightarrow> Inl AttributeError)"

text \<open>Sequencing of computations that may raise.\<close>

definition py_bind :: "py_error + 'a \<Rightarrow> ('a \<Rightarrow> py_error + 'b) \<Rightarrow> py_error + 'b" where
  "py_bind m f = (case m of Inl e \<Rightarrow> Inl e | Inr v \<Rightarrow> f v)"

fun sequence_e :: "(py_error + 'a) list \<Rightarrow> py_error + 'a list" where
  "sequence_e [] = Inr []"
| "sequence_e (x # xs) =
     (case x of
        Inl e \<Rightarrow> Inl e
      | Inr v \<Rightarrow> (case sequence_e xs of Inl e \<Rightarrow> Inl e | Inr vs \<Rightarrow> Inr (v # vs)))"

text \<open>\<^verbatim>\<open>int(s)\<close> on a string: white space stripped, an optional sign,
  decimal digits (underscores between digits are outside the model).\<close>

definition py_int10 :: "string \<Rightarrow> py_error + int" where
  "py_int10 s =
     (let (neg, ds) = split_sign (strip s)
      in if ds = [] \<or> \<not> list_all is_digit ds then Inl ValueError
         else Inr ((if neg then - 1 else 1) * int (digits_val ds)))"

text \<open>\<^verbatim>\<open>int(v)\<close> and \<^verbatim>\<open>float(v)\<close> on a JSON value.\<close>

fun py_int_of :: "json \<Rightarrow> py_error + int" where
  "py_int_of (JInt n) = Inr n"
| "py_int_of (JBool b) = Inr (if b then 1 else 0)"
| "py_int_of (JFloat x) = Inr (py_int x)"
| "py_int_of (JStr s) = py_int10 s"
| "py_int_of JNull = Inl TypeError"
| "py_int_of (JList vs) = Inl TypeError"
| "py_int_of (JDict kvs) = Inl TypeError"

fun py_float_of :: "json \<Rightarrow> py_error + rat" where
  "py_float_of (JInt n) = Inr (fl (of_int n))"
| "py_float_of (JBool b) = Inr (if b then 1 else 0)"
| "py_float_of (JFloat x) = Inr x"
| "py_float_of (JStr s) = py_float s"
| "py_float_of JNull = Inl TypeError"
| "py_float_of (JList vs) = Inl TypeError"
| "py_float_of (JDict kvs) = Inl TypeError"

text \<open>\<^verbatim>\<open>v / 2\<close> on a JSON value: true division gives a float.\<close>

fun py_half :: "json \<Rightarrow> py_error + rat" where
  "py_half (JInt n) = Inr (fl (of_int n / 2))"
| "py_half (JBool b) = Inr (if b then 1 / 2 else 0)"
| "py_half (JFloat x) = Inr (fl (x / 2))"
| "py_half JNull = Inl TypeError"
| "py_half (JStr s) = Inl TypeError"
| "py_half (JList vs) = Inl TypeError"
| "py_half (JDict kvs) = Inl TypeError"

text \<open>A value used as a dict key: lists and dicts are unhashable; \<^verbatim>\<open>True\<close>,
  \<^verbatim>\<open>1\<close> and \<^verbatim>\<open>1.0\<close> are the same key.\<close>

fun hash_key :: "json \<Rightarrow> py_error + json" where
  "hash_key (JList vs) = Inl TypeError"
| "hash_key (JDict kvs) = Inl TypeError"
| "hash_key (JBool b) = Inr (JInt (if b then 1 else 0))"
| "hash_key (JFloat x) = Inr (if of_int \<lfloor>x\<rfloor> = x then JInt \<lfloor>x\<rfloor> else JFloat x)"
| "hash_key v = Inr v"

text \<open>\<^verbatim>\<open>d[k] = v\<close> on an insertion-ordered dict.\<close>

fun alist_set :: "('k \<times> 'v) list \<Rightarrow> 'k \<Rightarrow> 'v \<Rightarrow> ('k \<times> 'v) list" where
  "alist_set [] k v = [(k, v)]"
| "alist_set ((k', v') # kvs) k v =
     (if k' = k then (k', v) # kvs else (k', v') # alist_set kvs k v)"

text \<open>
  The text of an f-string: literal text, and values whose \<^verbatim>\<open>str()\<close> is left
  symbolic (floats, and JSON values other than strings, ints, booleans and
  \<^verbatim>\<open>None\<close>).
\<close>

datatype piece = S string | V json

type_synonym fstring = "piece list"

fun fmt :: "json \<Rightarrow> fstring" where
  "fmt (JStr s) = [S s]"
| "fmt (JInt n) = [S (str_int n)]"
| "fmt (JBool b) = [S (if b then ''True'' else ''False'')]"
| "fmt JNull = [S ''None'']"
| "fmt (JFloat x) = [V (JFloat x)]"
| "fmt (JList vs) = [V (JList vs)]"
| "fmt (JDict kvs) = [V (JDict kvs)]"

fun join_f :: "fstring \<Rightarrow> fstring list \<Rightarrow> fstring" where
  "join_f sep [] = []"
| "join_f sep [x] = x"
| "join_f sep (x # y # ys) = x @ sep @ join_f sep (y # ys)"

section \<open>Template service: token resolution\<close>

text \<open>
  The variables of \<^verbatim>\<open>_render_video\<close> that its inner functions
  \<^verbatim>\<open>resolve_token\<close>, \<^verbatim>\<open>resolve_obj\<close> and \<^verbatim>\<open>between_expr\<close> close over
  (\<open>defn\<close> is the variable \<^verbatim>\<open>definition\<close>).
\<close>

record closure =
  duration_seconds :: json
  theme :: json
  customizations :: dict
  defn :: dict
  width :: int
  height :: int
  fps :: int
  tmp_dir :: string

definition resolve_token :: "'a closure_scheme \<Rightarrow> json \<Rightarrow> py_error + json" where
  "resolve_token c v =
     (case v of
        JStr s \<Rightarrow>
          if s = ''$duration'' then Inr (duration_seconds c)
          else if startswith s ''$theme.colors.''
          then (let key = drop (length ''$theme.colors.'') s
                in py_bind (attr_get (theme c) ''colors'') (\<lambda>colors.
                   (case py_or colors (JDict []) of
                      JDict d \<Rightarrow> Inr (dict_get_default d key (JStr ''#000000''))
                    | _ \<Rightarrow> Inl AttributeError)))
          else if startswith s ''$placeholder.''
          then (let key = drop (length ''$placeholder.'') s;
                    given = dict_get (customizations c) key
                in if truthy given then Inr given
                   else py_bind (attr_get (py_or (dict_get (defn c) ''placeholders'') (JDict [])) key)
                          (\<lambda>ph. attr_get (py_or ph (JDict [])) ''default''))
          else Inr v
      | _ \<Rightarrow> Inr v)"

fun resolve_obj :: "'a closure_scheme \<Rightarrow> json \<Rightarrow> py_error + json" where
  "resolve_obj c (JDict kvs) =
     py_bind (sequence_e (map (\<lambda>(k, v). py_bind (resolve_obj c v) (\<lambda>r. Inr (k, r))) kvs))
       (\<lambda>rs. Inr (JDict rs))"
| "resolve_obj c (JList vs) =
     py_bind (sequence_e (map (resolve_obj c) vs)) (\<lambda>rs. Inr (JList rs))"
| "resolve_obj c JNull = resolve_token c JNull"
| "resolve_obj c (JBool b) = resolve_token c (JBool b)"
| "resolve_obj c (JInt n) = resolve_token c (JInt n)"
| "resolve_obj c (JFloat x) = resolve_token c (JFloat x)"
| "resolve_obj c (JStr s) = resolve_token c (JStr s)"

section \<open>Template service: rendering\<close>

text \<open>The columns of \<^verbatim>\<open>Template\<close> and \<^verbatim>\<open>UserTemplate\<close> that the
  service reads and writes.\<close>

record template =
  template_data :: dict
  template_duration_seconds :: int
  template_fps :: int
  template_width :: int
  template_height :: int

record user_template =
  title :: string
  user_id :: string
  ut_customizations :: dict
  status :: string
  render_progress :: int
  output_url :: "string option"
  thumbnail_url :: "string option"
  error_message :: "string option"

subsection \<open>The local variables of \<^verbatim>\<open>_render_video\<close>\<close>

definition resolve_duration_seconds :: "dict \<Rightarrow> int \<Rightarrow> json" where
  "resolve_duration_seconds customs template_duration =
     (let dur = dict_get customs ''duration_seconds''
      in case dur of
           JInt n \<Rightarrow> if 0 < n then dur else JInt template_duration
         | JBool b \<Rightarrow> if b then dur else JInt template_duration
         | _ \<Rightarrow> JInt template_duration)"

definition resolve_theme_id :: "dict \<Rightarrow> dict \<Rightarrow> string option" where
  "resolve_theme_id customs definition' =
     (case dict_get customs ''theme_id'' of
        JStr s \<Rightarrow> if s \<noteq> [] then Some s
                  else (case py_or (dict_get definition' ''themes'') (JDict []) of
                          JDict (kv # kvs) \<Rightarrow> Some (fst kv)
                        | _ \<Rightarrow> None)
      | _ \<Rightarrow> (case py_or (dict_get definition' ''themes'') (JDict []) of
                 JDict (kv # kvs) \<Rightarrow> Some (fst kv)
               | _ \<Rightarrow> None))"

definition make_closure :: "template \<Rightarrow> user_template \<Rightarrow> string \<Rightarrow> py_error + closure" where
  "make_closure template user_template tmp =
     (let definition' = template_data template;
          customs = ut_customizations user_template;
          dur = resolve_duration_seconds customs (template_duration_seconds template)
      in py_bind (py_int_of (py_or (dict_get definition' ''fps'')
                     (py_or (JInt (template_fps template)) (JInt 30)))) (\<lambda>fps'.
         py_bind (py_int_of (py_or (dict_get definition' ''width'')
                     (py_or (JInt (template_width template)) (JInt 1080)))) (\<lambda>width'.
         py_bind (py_int_of (py_or (dict_get definition' ''height'')
                     (py_or (JInt (template_height template)) (JInt 1920)))) (\<lambda>height'.
         py_bind (case resolve_theme_id customs definition' of
                    None \<Rightarrow> Inr (JDict [])
                  | Some theme_id \<Rightarrow>
                      if theme_id = [] then Inr (JDict [])
                      else py_bind (attr_get (py_or (dict_get definition' ''themes'') (JDict []))
                                      theme_id)
                             (\<lambda>t. Inr (py_or t (JDict [])))) (\<lambda>theme'.
           Inr \<lparr>duration_seconds = dur, theme = theme', customizations = customs,
                defn = definition', width = width', height = height', fps = fps',
                tmp_dir = tmp\<rparr>)))))"

text \<open>\<^verbatim>\<open>layers = definition.get("layers") or []\<close>, replaced by the empty list
  when it is not a list.\<close>

definition layers_of :: "dict \<Rightarrow> json list" where
  "layers_of definition' =
     (case py_or (dict_get definition' ''layers'') (JList []) of JList ls \<Rightarrow> ls | _ \<Rightarrow> [])"

text \<open>The background colour: the style colour of the first solid layer.\<close>

definition is_solid :: "json \<Rightarrow> bool" where
  "is_solid layer = (case layer of JDict l \<Rightarrow> dict_get l ''type'' = JStr ''solid'' | _ \<Rightarrow> False)"

definition bg_color_of :: "closure \<Rightarrow> json list \<Rightarrow> py_error + json" where
  "bg_color_of c layers =
     (case find is_solid layers of
        Some (JDict l) \<Rightarrow>
          py_bind (resolve_obj c (py_or (dict_get l ''style'') (JDict []))) (\<lambda>style.
          py_bind (attr_get style ''color'') (\<lambda>col. Inr (py_or col (JStr ''black''))))
      | _ \<Rightarrow> Inr (JStr ''black''))"

subsection \<open>Inputs for video and image layers\<close>

text \<open>The state of the first loop: \<^verbatim>\<open>ffmpeg_inputs\<close> and
  \<^verbatim>\<open>input_index_by_layer_id\<close>.\<close>

record inputs =
  ffmpeg_inputs :: "string list"
  input_index_by_layer_id :: "(json \<times> int) list"

definition is_media_type :: "json \<Rightarrow> bool" where
  "is_media_type ltype = (ltype = JStr ''video'' \<or> ltype = JStr ''image'')"

text \<open>The local file of a layer (\<^verbatim>\<open>local_path\<close>), if there is one: the
  downloaded asset of the placeholder the raw source names, else the resolved
  source itself when it lies in the temporary directory.\<close>

definition local_path_of :: "closure \<Rightarrow> (string \<times> string) list \<Rightarrow> dict \<Rightarrow> string \<Rightarrow> string option" where
  "local_path_of c asset_paths layer source =
     (let raw_source = dict_get layer ''source'';
          placeholder_key =
            (case raw_source of
               JStr r \<Rightarrow> if startswith r ''$placeholder.''
                         then drop (length ''$placeholder.'') r else []
             | _ \<Rightarrow> []);
          local_path = (case map_of asset_paths placeholder_key of
                          Some p \<Rightarrow> if p \<noteq> [] then Some p else None
                        | None \<Rightarrow> None)
      in case local_path of
           Some p \<Rightarrow> Some p
         | None \<Rightarrow> if startswith source (tmp_dir c) \<and> source \<noteq> [] then Some source else None)"

definition input_step ::
  "closure \<Rightarrow> (string \<times> string) list \<Rightarrow> inputs \<Rightarrow> json \<Rightarrow> py_error + inputs" where
  "input_step c asset_paths st layer' =
     (case layer' of
        JDict layer \<Rightarrow>
          (let ltype = dict_get layer ''type''
           in if \<not> is_media_type ltype then Inr st
              else py_bind (resolve_token c (dict_get layer ''source'')) (\<lambda>source'.
                   (case source' of
                      JStr source \<Rightarrow>
                        if source = [] then Inr st
                        else (case local_path_of c asset_paths layer source of
                                None \<Rightarrow> Inr st
                              | Some local_path \<Rightarrow>
                                  (let n = int (length (input_index_by_layer_id st));
                                       new_inputs =
                                         (if ltype = JStr ''video''
                                          then ffmpeg_inputs st
                                               @ [''-stream_loop'', ''-1'', ''-i'', local_path]
                                          else ffmpeg_inputs st
                                               @ [''-loop'', ''1'', ''-i'', local_path])
                                   in py_bind (hash_key (py_or (dict_get layer ''id'')
                                                 (JStr (''layer_'' @ str_int (n + 1)))))
                                        (\<lambda>key. Inr \<lparr>ffmpeg_inputs = new_inputs,
                                                   input_index_by_layer_id =
                                                     alist_set (input_index_by_layer_id st)
                                                       key (1 + n)\<rparr>)))
                    | _ \<Rightarrow> Inr st)))
      | _ \<Rightarrow> Inr st)"

fun fold_e :: "('s \<Rightarrow> 'a \<Rightarrow> py_error + 's) \<Rightarrow> 's \<Rightarrow> 'a list \<Rightarrow> py_error + 's" where
  "fold_e f st [] = Inr st"
| "fold_e f st (x # xs) = (case f st x of Inl e \<Rightarrow> Inl e | Inr st' \<Rightarrow> fold_e f st' xs)"

definition build_inputs ::
  "closure \<Rightarrow> (string \<times> string) list \<Rightarrow> json list \<Rightarrow> py_error + inputs" where
  "build_inputs c asset_paths layers =
     fold_e (input_step c asset_paths)
       \<lparr>ffmpeg_inputs = [], input_index_by_layer_id = []\<rparr> layers"

subsection \<open>Layers in z order\<close>

text \<open>\<^verbatim>\<open>sorted([l for l in layers if isinstance(l, dict)], key=lambda l:
  int(l.get("z") or 0))\<close>: the keys are computed first (any of them may raise),
  then the layers are sorted by key, stably.\<close>

definition dict_layers :: "json list \<Rightarrow> dict list" where
  "dict_layers layers = concat (map (\<lambda>l. case l of JDict d \<Rightarrow> [d] | _ \<Rightarrow> []) layers)"

definition z_key :: "dict \<Rightarrow> py_error + int" where
  "z_key l = py_int_of (py_or (dict_get l ''z'') (JInt 0))"

definition sorted_layers :: "json list \<Rightarrow> py_error + dict list" where
  "sorted_layers layers =
     (let ls = dict_layers layers
      in py_bind (sequence_e (map z_key ls))
           (\<lambda>keys. Inr (map snd (sort_key fst (zip keys ls)))))"

subsection \<open>The filter chain\<close>

text \<open>The state of the second loop: \<^verbatim>\<open>current_label\<close>,
  \<^verbatim>\<open>filter_lines\<close>, \<^verbatim>\<open>overlay_index\<close> and \<^verbatim>\<open>draw_index\<close>.\<close>

record chain =
  current_label :: string
  filter_lines :: "fstring list"
  overlay_index :: nat
  draw_index :: nat

text \<open>\<^verbatim>\<open>between_expr\<close>.  The comparison \<^verbatim>\<open>e == duration_seconds\<close> is
  between a float and an int (or \<^verbatim>\<open>True\<close>).\<close>

definition num_of :: "json \<Rightarrow> rat option" where
  "num_of v = (case v of JInt n \<Rightarrow> Some (of_int n)
                       | JBool b \<Rightarrow> Some (if b then 1 else 0)
                       | JFloat x \<Rightarrow> Some x
                       | _ \<Rightarrow> None)"

definition between_expr :: "closure \<Rightarrow> json \<Rightarrow> json \<Rightarrow> py_error + fstring" where
  "between_expr c start end' =
     py_bind (resolve_token c start) (\<lambda>sv.
     py_bind (py_float_of (py_or sv (JInt 0))) (\<lambda>s.
     py_bind (resolve_token c end') (\<lambda>ev.
     py_bind (py_float_of (py_or ev (duration_seconds c))) (\<lambda>e0.
     py_bind (if Some e0 = num_of (duration_seconds c) \<and> end' = JStr ''$duration''
              then py_float_of (duration_seconds c) else Inr e0) (\<lambda>e.
       Inr [S (''between(t'' @ [CHR 0x5C] @ '',''), V (JFloat s),
            S ([CHR 0x5C] @ '',''), V (JFloat e), S '')''])))))"

text \<open>The body of the second loop for a video or image layer.\<close>

definition media_step :: "closure \<Rightarrow> (json \<times> int) list \<Rightarrow> chain \<Rightarrow> dict \<Rightarrow> py_error + chain" where
  "media_step c index st layer =
     py_bind (hash_key (dict_get layer ''id'')) (\<lambda>layer_id.
     (case map_of index layer_id of
        None \<Rightarrow> Inr st
      | Some input_idx \<Rightarrow>
          if input_idx = 0 then Inr st
          else
          py_bind (resolve_obj c (py_or (dict_get layer ''transform'') (JDict []))) (\<lambda>transform'.
          (case transform' of
             JDict transform \<Rightarrow>
               (let fit = py_or (dict_get transform ''fit'') (JStr ''cover'');
                    i = str_int input_idx;
                    k = str_nat (overlay_index st);
                    wd = str_int (width c);
                    ht = str_int (height c)
                in py_bind (py_float_of (py_or (dict_get transform ''opacity'') (JFloat 1)))
                     (\<lambda>opacity.
                   py_bind
                     (if dict_get layer ''type'' = JStr ''video''
                      then (if fit = JStr ''contain''
                            then Inr [S (''['' @ i @ '':v]scale=w='' @ wd @ '':h='' @ ht
                                   @ '':force_original_aspect_ratio=decrease,pad=w='' @ wd
                                   @ '':h='' @ ht
                                   @ '':x=(ow-iw)/2:y=(oh-ih)/2:color=0x00000000,setsar=1,format=rgba[ov''
                                   @ k @ '']'')]
                            else Inr [S (''['' @ i @ '':v]scale=w='' @ wd @ '':h='' @ ht
                                   @ '':force_original_aspect_ratio=increase,crop=w='' @ wd
                                   @ '':h='' @ ht @ '',setsar=1,format=rgba[ov'' @ k @ '']'')])
                      else py_bind (py_int_of (py_or (dict_get transform ''w'') (JInt 0))) (\<lambda>w.
                           py_bind (py_int_of (py_or (dict_get transform ''h'') (JInt 0))) (\<lambda>h.
                             if 0 < w \<and> 0 < h
                             then Inr [S (''['' @ i @ '':v]scale='' @ str_int w @ '':'' @ str_int h
                                    @ '':force_original_aspect_ratio=decrease,format=rgba[ov''
                                    @ k @ '']'')]
                             else Inr [S (''['' @ i @ '':v]format=rgba[ov'' @ k @ '']'')])))
                     (\<lambda>scale_line.
                   py_bind (py_int_of (py_or (dict_get transform ''x'') (JInt 0))) (\<lambda>x.
                   py_bind (py_int_of (py_or (dict_get transform ''y'') (JInt 0))) (\<lambda>y.
                   py_bind (between_expr c (dict_get layer ''start'') (dict_get layer ''end''))
                     (\<lambda>enable.
                     (let out_label = ''[v'' @ k @ '']'';
                          alpha_lines =
                            (if opacity < 1
                             then [[S (''[ov'' @ k @ '']colorchannelmixer=aa=''), V (JFloat opacity),
                                    S (''[ova'' @ k @ '']'')]]
                             else []);
                          ov_in = (if opacity < 1 then ''[ova'' @ k @ '']'' else ''[ov'' @ k @ '']'');
                          overlay_line =
                            [S (current_label st @ ov_in @ ''overlay=x='' @ str_int x @ '':y=''
                                @ str_int y @ '':enable='' @ [CHR 0x27])]
                            @ enable @ [S ([CHR 0x27] @ out_label)]
                      in Inr (st\<lparr>current_label := out_label,
                                 filter_lines := filter_lines st @ [scale_line] @ alpha_lines
                                                 @ [overlay_line],
                                 overlay_index := Suc (overlay_index st)\<rparr>))))))))
           | _ \<Rightarrow> Inl AttributeError))))"

text \<open>The body of the second loop for a text layer; \<^verbatim>\<open>write_textfile\<close>
  increments \<^verbatim>\<open>draw_index\<close> and names the file after it (the write itself is
  not part of the model).\<close>

definition text_step :: "closure \<Rightarrow> chain \<Rightarrow> dict \<Rightarrow> py_error + chain" where
  "text_step c st layer =
     py_bind (resolve_token c (dict_get layer ''text'')) (\<lambda>text_val'.
     (case text_val' of
        JStr text_val \<Rightarrow>
          if strip text_val = [] then Inr st
          else
          py_bind (resolve_obj c (py_or (dict_get layer ''style'') (JDict []))) (\<lambda>style.
          py_bind (resolve_obj c (py_or (dict_get layer ''transform'') (JDict []))) (\<lambda>transform.
          py_bind (attr_get style ''fontSize'') (\<lambda>fs.
          py_bind (py_int_of (py_or fs (JInt 48))) (\<lambda>font_size.
          py_bind (attr_get style ''color'') (\<lambda>col.
          py_bind (attr_get style ''fontFamily'') (\<lambda>fam.
          py_bind (attr_get style ''background'') (\<lambda>bg0.
            (let color = py_or col (JStr ''white'');
                 font_family = py_or fam (JStr ''Inter'');
                 bg = py_or bg0 JNull;
                 bg_col = (case bg of JDict b \<Rightarrow> dict_get b ''color'' | _ \<Rightarrow> JNull);
                 box = (if truthy bg_col then ''1'' else ''0'');
                 boxcolor = py_or bg_col (JStr ''black@0.0'')
             in py_bind (py_half (case bg of JDict b \<Rightarrow> py_or (dict_get b ''paddingX'') (JInt 0)
                                           | _ \<Rightarrow> JInt 0)) (\<lambda>half.
                py_bind (attr_get transform ''x'') (\<lambda>x0.
                py_bind (py_int_of (py_or x0 (JInt 0))) (\<lambda>x.
                py_bind (attr_get transform ''y'') (\<lambda>y0.
                py_bind (py_int_of (py_or y0 (JInt 0))) (\<lambda>y.
                py_bind (between_expr c (dict_get layer ''start'') (dict_get layer ''end''))
                  (\<lambda>enable.
                  (let d = Suc (draw_index st);
                       textfile = tmp_dir c @ ''/text_'' @ str_nat d @ ''.txt'';
                       out_label = ''[t'' @ str_nat d @ '']'';
                       draw =
                         [S (''drawtext=textfile='' @ [CHR 0x27] @ textfile @ [CHR 0x27]
                             @ '':font='' @ [CHR 0x27])]
                         @ fmt font_family
                         @ [S ([CHR 0x27] @ '':fontsize='' @ str_int font_size @ '':fontcolor='')]
                         @ fmt color
                         @ [S ('':x='' @ str_int x @ '':y='' @ str_int y @ '':box='' @ box
                               @ '':boxcolor='')]
                         @ fmt boxcolor
                         @ [S ('':boxborderw='' @ str_int (py_int half) @ '':enable=''
                               @ [CHR 0x27])]
                         @ enable @ [S [CHR 0x27]]
                   in Inr (st\<lparr>current_label := out_label,
                              filter_lines := filter_lines st
                                              @ [[S (current_label st)] @ draw @ [S out_label]],
                              draw_index := d\<rparr>))))))))))))))))
      | _ \<Rightarrow> Inr st))"

definition overlay_step :: "closure \<Rightarrow> (json \<times> int) list \<Rightarrow> chain \<Rightarrow> dict \<Rightarrow> py_error + chain" where
  "overlay_step c index st layer =
     (let ltype = dict_get layer ''type''
      in if is_media_type ltype then media_step c index st layer
         else if ltype = JStr ''text'' then text_step c st layer
         else Inr st)"

definition initial_chain :: chain where
  "initial_chain =
     \<lparr>current_label = ''[base]'', filter_lines = [[S ''[0:v]format=rgba[base]'']],
      overlay_index = 0, draw_index = 0\<rparr>"

text \<open>Both loops of \<^verbatim>\<open>_render_video\<close>: the inputs, then the chain over the
  layers in z order.\<close>

definition build_filter_graph ::
  "closure \<Rightarrow> (string \<times> string) list \<Rightarrow> json list \<Rightarrow> py_error + inputs \<times> chain" where
  "build_filter_graph c asset_paths layers =
     py_bind (build_inputs c asset_paths layers) (\<lambda>ins.
     py_bind (sorted_layers layers) (\<lambda>sl.
     py_bind (fold_e (overlay_step c (input_index_by_layer_id ins)) initial_chain sl) (\<lambda>ch.
       Inr (ins, ch))))"

definition quality_opts :: "string \<Rightarrow> int \<times> string" where
  "quality_opts quality =
     (if quality = ''low'' then (28, ''fast'')
      else if quality = ''medium'' then (23, ''medium'')
      else if quality = ''high'' then (18, ''slow'')
      else if quality = ''ultra'' then (15, ''slower'')
      else (18, ''slow''))"

definition FFMPEG_PATH :: string where
  "FFMPEG_PATH = ''/usr/bin/ffmpeg''"

text \<open>The command line \<^verbatim>\<open>_render_video\<close> passes to the encoder.\<close>

definition render_video_cmd ::
  "template \<Rightarrow> user_template \<Rightarrow> string \<Rightarrow> string \<Rightarrow> string \<Rightarrow> (string \<times> string) list
   \<Rightarrow> py_error + fstring list" where
  "render_video_cmd template user_template tmp output_path quality asset_paths =
     py_bind (make_closure template user_template tmp) (\<lambda>c.
     (let layers = layers_of (defn c)
      in py_bind (bg_color_of c layers) (\<lambda>bg_color.
         py_bind (build_filter_graph c asset_paths layers) (\<lambda>(ins, ch).
           Inr ([[S FFMPEG_PATH], [S ''-y''], [S ''-f''], [S ''lavfi''], [S ''-i''],
                 [S ''color=c=''] @ fmt bg_color
                 @ [S ('':s='' @ str_int (width c) @ ''x'' @ str_int (height c)
                       @ '':r='' @ str_int (fps c) @ '':d='')]
                 @ fmt (duration_seconds c)]
                @ map (\<lambda>a. [S a]) (ffmpeg_inputs ins)
                @ [[S ''-filter_complex''], join_f [S '';''] (filter_lines ch),
                   [S ''-map''], [S (current_label ch)],
                   [S ''-t''], fmt (duration_seconds c),
                   [S ''-r''], [S (str_int (fps c))],
                   [S ''-c:v''], [S ''libx264''],
                   [S ''-crf''], [S (str_int (fst (quality_opts quality)))],
                   [S ''-preset''], [S (snd (quality_opts quality))],
                   [S ''-pix_fmt''], [S ''yuv420p''],
                   [S output_path]])))))"

section \<open>Template service: the render job\<close>

text \<open>
  The external collaborators of a render: the HTTP client, the file system of the
  temporary directory, the encoder and the object storage.  Each is a function
  that answers a call; \<open>Inl\<close> is the exception the call raises.
\<close>

record response =
  status_code :: nat
  content_type :: "string option"
  content :: string

record world =
  world_tmp_dir :: string
  http_get :: "string \<Rightarrow> py_error + response"
  write_file :: "string \<Rightarrow> string \<Rightarrow> py_error option"
  run_ffmpeg :: "fstring list \<Rightarrow> int \<times> string"
  read_file :: "string \<Rightarrow> py_error + string"
  upload_file_content :: "string \<Rightarrow> string \<Rightarrow> string \<Rightarrow> py_error + string"

text \<open>\<^verbatim>\<open>response.raise_for_status()\<close>: a 4xx or 5xx status raises.\<close>

definition raise_for_status :: "response \<Rightarrow> py_error option" where
  "raise_for_status r = (if 400 \<le> status_code r then Some HTTPStatusError else None)"

definition lower_char :: "char \<Rightarrow> char" where
  "lower_char ch =
     (let n = (of_char ch :: nat) in if 65 \<le> n \<and> n \<le> 90 then char_of (n + 32) else ch)"

definition lower :: "string \<Rightarrow> string" where
  "lower s = map lower_char s"

text \<open>\<^verbatim>\<open>sub in s\<close> on strings.\<close>

fun contains :: "string \<Rightarrow> string \<Rightarrow> bool" where
  "contains sub [] = (sub = [])"
| "contains sub (x # xs) = (startswith (x # xs) sub \<or> contains sub xs)"

text \<open>The extension \<^verbatim>\<open>_prepare_assets\<close> gives the downloaded file.\<close>

definition asset_ext :: "string \<Rightarrow> response \<Rightarrow> string" where
  "asset_ext url r =
     (let url_path = takeWhile (\<lambda>ch. ch \<noteq> CHR ''?'') url;
          ext = lower (if CHR ''.'' \<in> set url_path
                       then rev (takeWhile (\<lambda>ch. ch \<noteq> CHR ''.'') (rev url_path))
                       else ''bin'');
          ctype = lower (case content_type r of None \<Rightarrow> [] | Some t \<Rightarrow> t)
      in if ext = ''bin''
         then (if contains ''image/png'' ctype then ''png''
               else if contains ''image/jpeg'' ctype \<or> contains ''image/jpg'' ctype then ''jpg''
               else if contains ''video/mp4'' ctype then ''mp4''
               else if contains ''video/quicktime'' ctype then ''mov''
               else ext)
         else ext)"

text \<open>The body of the loop of \<^verbatim>\<open>_prepare_assets\<close> for one customization.\<close>

definition prepare_step ::
  "world \<Rightarrow> (string \<times> string) list \<Rightarrow> string \<times> json \<Rightarrow> py_error + (string \<times> string) list" where
  "prepare_step w asset_paths kv =
     (case snd kv of
        JStr url \<Rightarrow>
          if \<not> startswith url ''http'' then Inr asset_paths
          else py_bind (http_get w url) (\<lambda>r.
               (case raise_for_status r of
                  Some e \<Rightarrow> Inl e
                | None \<Rightarrow>
                    (let path = world_tmp_dir w @ ''/'' @ fst kv @ ''.'' @ asset_ext url r
                     in case write_file w path (content r) of
                          Some e \<Rightarrow> Inl e
                        | None \<Rightarrow> Inr (alist_set asset_paths (fst kv) path))))
      | _ \<Rightarrow> Inr asset_paths)"

definition prepare_assets :: "world \<Rightarrow> user_template \<Rightarrow> py_error + (string \<times> string) list" where
  "prepare_assets w user_template =
     fold_e (prepare_step w) [] (ut_customizations user_template)"

text \<open>\<^verbatim>\<open>_render_video\<close>: the command is built and run; a non-zero exit raises.\<close>

definition render_video ::
  "world \<Rightarrow> template \<Rightarrow> user_template \<Rightarrow> string \<Rightarrow> string \<Rightarrow> (string \<times> string) list
   \<Rightarrow> py_error + unit" where
  "render_video w template user_template output_path quality asset_paths =
     py_bind (render_video_cmd template user_template (world_tmp_dir w) output_path quality
                asset_paths) (\<lambda>cmd.
       (let (returncode, stderr) = run_ffmpeg w cmd
        in if returncode \<noteq> 0 then Inl (FFmpegError stderr) else Inr ()))"

text \<open>\<^verbatim>\<open>str(e)\<close> of the exception caught by \<^verbatim>\<open>render_template\<close>; the
  message of a library exception is represented by its class name.\<close>

fun error_text :: "py_error \<Rightarrow> string" where
  "error_text (FFmpegError stderr) = ''FFmpeg error: '' @ stderr"
| "error_text ValueError = ''ValueError''"
| "error_text TypeError = ''TypeError''"
| "error_text AttributeError = ''AttributeError''"
| "error_text IndexError = ''IndexError''"
| "error_text KeyError = ''KeyError''"
| "error_text HTTPStatusError = ''HTTPStatusError''"
| "error_text IOError = ''IOError''"

text \<open>The part of the \<^verbatim>\<open>try\<close> block after the encode: upload of the video,
  poster frame, upload of the poster.\<close>

definition thumbnail_cmd :: "string \<Rightarrow> string \<Rightarrow> fstring list" where
  "thumbnail_cmd video_path out_path =
     map (\<lambda>a. [S a]) [FFMPEG_PATH, ''-y'', ''-i'', video_path, ''-ss'', ''00:00:01'',
                       ''-vframes'', ''1'', ''-q:v'', ''2'', out_path]"

definition publish :: "world \<Rightarrow> user_template \<Rightarrow> string \<Rightarrow> string \<Rightarrow> py_error + string \<times> string" where
  "publish w user_template output_path output_format =
     py_bind (read_file w output_path) (\<lambda>video.
     py_bind (upload_file_content w video (title user_template @ ''.'' @ output_format)
                (''renders/'' @ user_id user_template)) (\<lambda>video_url.
       (let thumbnail_path = world_tmp_dir w @ ''/thumbnail.jpg'';
            ran = run_ffmpeg w (thumbnail_cmd output_path thumbnail_path)
        in py_bind (read_file w thumbnail_path) (\<lambda>thumb.
           py_bind (upload_file_content w thumb (title user_template @ ''_thumb.jpg'')
                      (''renders/'' @ user_id user_template)) (\<lambda>thumbnail_url'.
             Inr (video_url, thumbnail_url'))))))"

text \<open>
  \<^verbatim>\<open>TemplateService.render_template\<close>.  The arguments are the rows the two
  queries find (\<open>None\<close> when there is none); the result is the list of states of
  the job row that the function commits, in order.  The commits themselves and the
  creation of the temporary directory are taken to succeed.
\<close>

definition failed_with :: "user_template \<Rightarrow> py_error \<Rightarrow> user_template" where
  "failed_with ut e = ut\<lparr>status := ''failed'', error_message := Some (error_text e)\<rparr>"

definition render_template ::
  "world \<Rightarrow> user_template option \<Rightarrow> template option \<Rightarrow> string \<Rightarrow> string \<Rightarrow> user_template list" where
  "render_template w found_user_template found_template output_format quality =
     (case found_user_template of
        None \<Rightarrow> []
      | Some user_template \<Rightarrow>
          (case found_template of
             None \<Rightarrow> [user_template\<lparr>status := ''failed'',
                                     error_message := Some ''Base template not found''\<rparr>]
           | Some template \<Rightarrow>
               (let ut1 = user_template\<lparr>render_progress := 10\<rparr>
                in case prepare_assets w ut1 of
                     Inl e \<Rightarrow> [ut1, failed_with ut1 e]
                   | Inr asset_paths \<Rightarrow>
                       (let ut2 = ut1\<lparr>render_progress := 40\<rparr>;
                            output_path = world_tmp_dir w @ ''/output.'' @ output_format
                        in case render_video w template ut2 output_path quality asset_paths of
                             Inl e \<Rightarrow> [ut1, ut2, failed_with ut2 e]
                           | Inr u \<Rightarrow>
                               (let ut3 = ut2\<lparr>render_progress := 80\<rparr>
                                in case publish w ut3 output_path output_format of
                                     Inl e \<Rightarrow> [ut1, ut2, ut3, failed_with ut3 e]
                                   | Inr (video_url, thumbnail_url') \<Rightarrow>
                                       [ut1, ut2, ut3,
                                        ut3\<lparr>output_url := Some video_url,
                                            thumbnail_url := Some thumbnail_url',
                                            status := ''completed'',
                                            render_progress := 100\<rparr>])))))"

section \<open>Template endpoints\<close>

datatype http_error = HTTP_402 | HTTP_403 | HTTP_404

record user =
  credits_remaining :: int
  subscription_tier :: string

text \<open>\<^verbatim>\<open>use_template\<close>: the job row it creates; the columns it does not set
  take their defaults.\<close>

definition use_template ::
  "(template \<times> bool) option \<Rightarrow> user \<Rightarrow> string \<Rightarrow> string \<Rightarrow> dict \<Rightarrow> http_error + user_template" where
  "use_template found_template current_user uid title' customs =
     (case found_template of
        None \<Rightarrow> Inl HTTP_404
      | Some (template, is_premium) \<Rightarrow>
          if is_premium \<and> subscription_tier current_user = ''free'' then Inl HTTP_403
          else Inr \<lparr>title = title', user_id = uid, ut_customizations = customs,
                    status = ''draft'', render_progress = 0, output_url = None,
                    thumbnail_url = None, error_message = None\<rparr>)"

text \<open>The endpoint \<^verbatim>\<open>render_template\<close> (\<^verbatim>\<open>POST /render\<close>): the job row and
  the user after the request, the background task being scheduled on the job.\<close>

definition start_render :: "user_template option \<Rightarrow> user \<Rightarrow> http_error + user_template \<times> user" where
  "start_render found_user_template current_user =
     (case found_user_template of
        None \<Rightarrow> Inl HTTP_404
      | Some user_template \<Rightarrow>
          if credits_remaining current_user \<le> 0 then Inl HTTP_402
          else Inr (user_template\<lparr>status := ''rendering''\<rparr>,
                    current_user\<lparr>credits_remaining := credits_remaining current_user - 1\<rparr>))"

section \<open>Predicates used in the properties\<close>

text \<open>The invariant of the data model: the output URL is set if and only if the
  status is \<^verbatim>\<open>completed\<close>.\<close>

definition output_iff_completed :: "user_template \<Rightarrow> bool" where
  "output_iff_completed ut = ((output_url ut \<noteq> None) = (status ut = ''completed''))"

text \<open>A closure is well formed when the theme is a dict whose colours, if any, are
  a dict, and the placeholders of the definition, if any, are a dict of dicts.\<close>

definition wf_closure :: "closure \<Rightarrow> bool" where
  "wf_closure c =
     ((case theme c of
         JDict t \<Rightarrow> (case py_or (dict_get t ''colors'') (JDict []) of
                       JDict d \<Rightarrow> True | _ \<Rightarrow> False)
       | _ \<Rightarrow> False)
      \<and> (case py_or (dict_get (defn c) ''placeholders'') (JDict []) of
            JDict phs \<Rightarrow>
              list_all (\<lambda>kv. case py_or (snd kv) (JDict []) of JDict d \<Rightarrow> True | _ \<Rightarrow> False) phs
          | _ \<Rightarrow> False))"

section \<open>Properties of the caption service\<close>

subsection \<open>Time stamps\<close>

lemma format_time_srt_1_5: "format_time_srt (3 / 2) = ''00:00:01,500''"
  by code_simp

lemma format_time_srt_3_25: "format_time_srt (13 / 4) = ''00:00:03,250''"
  by code_simp

lemma format_time_vtt_1_5: "format_time_vtt (3 / 2) = ''00:00:01.500''"
  by code_simp

lemma format_time_vtt_3_25: "format_time_vtt (13 / 4) = ''00:00:03.250''"
  by code_simp

lemma format_time_ass_1_5: "format_time_ass (3 / 2) = ''0:00:01.50''"
  by code_simp

lemma format_time_ass_3_25: "format_time_ass (13 / 4) = ''0:00:03.25''"
  by code_simp

text \<open>
  Claim C4.  For a segment with start 1.5 s and end 3.25 s, whatever its other
  fields and its cue number, the second line of the SRT cue is
  \<^verbatim>\<open>00:00:01,500 --> 00:00:03,250\<close>, the second line of the VTT cue is
  \<^verbatim>\<open>00:00:01.500 --> 00:00:03.250\<close>, and the ASS dialogue line (with explicit
  style settings and with a preset) carries start \<^verbatim>\<open>0:00:01.50\<close> and end
  \<^verbatim>\<open>0:00:03.25\<close>.
\<close>

theorem timestamps_1_5_to_3_25:
  "srt_cue inc i (seg\<lparr>start_time := 3 / 2, end_time := 13 / 4\<rparr>) ! 1
     = ''00:00:01,500 --> 00:00:03,250''
   \<and> vtt_cue inc i (seg\<lparr>start_time := 3 / 2, end_time := 13 / 4\<rparr>) ! 1
     = ''00:00:01.500 --> 00:00:03.250''
   \<and> ass_event (seg\<lparr>start_time := 3 / 2, end_time := 13 / 4\<rparr>)
     = ''Dialogue: 0,0:00:01.50,0:00:03.25,Default,,0,0,0,,'' @ replace_newline (seg_text seg)
   \<and> ass_event_preset False (seg\<lparr>start_time := 3 / 2, end_time := 13 / 4\<rparr>)
     = ''Dialogue: 0,0:00:01.50,0:00:03.25,Default,,0,0,0,,''
       @ strip (replace_newline (seg_text seg))"
  by (simp add: srt_cue_def vtt_cue_def ass_event_def ass_event_preset_def Let_def
      format_time_srt_1_5 format_time_srt_3_25 format_time_vtt_1_5 format_time_vtt_3_25
      format_time_ass_1_5 format_time_ass_3_25)

subsection \<open>Karaoke text\<close>









subsection \<open>Colours\<close>

lemma py_int16_FF: "py_int16 ''FF'' = Inr 255"
  by code_simp

lemma fmt_0X_255: "fmt_0X 2 255 = ''FF''"
  by code_simp

lemma slices_of_six:
  "py_slice [a, b, c, d, e, f] 0 2 = [a, b]"
  "py_slice [a, b, c, d, e, f] 2 4 = [c, d]"
  "py_slice [a, b, c, d, e, f] 4 6 = [e, f]"
  by (simp_all add: py_slice_def)

lemma hex_val_not_space: "hex_val c = Some v \<Longrightarrow> \<not> is_space c"
  by (auto simp: hex_val_def is_space_def Let_def split: if_splits)

lemma hex_val_not_sign: "hex_val c = Some v \<Longrightarrow> c \<noteq> CHR ''-'' \<and> c \<noteq> CHR ''+''"
  by (auto simp: hex_val_def Let_def split: if_splits)

lemma py_int16_two_digits:
  assumes "hex_val a = Some va" and "hex_val b = Some vb"
  shows "py_int16 [a, b] = Inr (int (16 * va + vb))"
proof -
  have "strip [a, b] = [a, b]"
    using assms by (simp add: strip_def hex_val_not_space)
  moreover have "split_sign [a, b] = (False, [a, b])"
    using hex_val_not_sign[OF assms(1)] by (simp add: split_sign_def)
  ultimately show ?thesis
    using assms by (simp add: py_int16_def hex_digits_val_def)
qed

text \<open>
  Claim C7, as the code has it.  A colour whose text after the leading \<^verbatim>\<open>#\<close>
  characters is not exactly six characters long (a 3-digit colour among them) is
  not expanded: it converts as white, \<^verbatim>\<open>&H<alpha>FFFFFF\<close>.  A colour of six hex
  digits \<^verbatim>\<open>RRGGBB\<close> converts to \<^verbatim>\<open>&H<alpha><BB><GG><RR>\<close>.
\<close>

theorem hex_to_ass_color_six_or_white:
  "(length (dropWhile (\<lambda>x. x = CHR ''#'') h) \<noteq> 6 \<longrightarrow>
      hex_to_ass_color h alpha = Inr (''&H'' @ fmt_0X 2 alpha @ ''FFFFFF''))
   \<and> (dropWhile (\<lambda>x. x = CHR ''#'') h = [r1, r2, g1, g2, b1, b2]
        \<and> hex_val r1 = Some vr1 \<and> hex_val r2 = Some vr2
        \<and> hex_val g1 = Some vg1 \<and> hex_val g2 = Some vg2
        \<and> hex_val b1 = Some vb1 \<and> hex_val b2 = Some vb2 \<longrightarrow>
      hex_to_ass_color h alpha
        = Inr (''&H'' @ fmt_0X 2 alpha @ fmt_0X 2 (int (16 * vb1 + vb2))
               @ fmt_0X 2 (int (16 * vg1 + vg2)) @ fmt_0X 2 (int (16 * vr1 + vr2))))"
proof (intro conjI impI)
  assume short: "length (dropWhile (\<lambda>x. x = CHR ''#'') h) \<noteq> 6"
  show "hex_to_ass_color h alpha = Inr (''&H'' @ fmt_0X 2 alpha @ ''FFFFFF'')"
  proof (cases "h = []")
    case True
    then show ?thesis
      by (simp add: hex_to_ass_color_def Let_def slices_of_six py_int16_FF fmt_0X_255)
  next
    case False
    with short show ?thesis
      by (simp add: hex_to_ass_color_def Let_def slices_of_six py_int16_FF fmt_0X_255)
  qed
next
  assume six: "dropWhile (\<lambda>x. x = CHR ''#'') h = [r1, r2, g1, g2, b1, b2]
        \<and> hex_val r1 = Some vr1 \<and> hex_val r2 = Some vr2
        \<and> hex_val g1 = Some vg1 \<and> hex_val g2 = Some vg2
        \<and> hex_val b1 = Some vb1 \<and> hex_val b2 = Some vb2"
  then have "h \<noteq> []"
    by auto
  with six show "hex_to_ass_color h alpha
        = Inr (''&H'' @ fmt_0X 2 alpha @ fmt_0X 2 (int (16 * vb1 + vb2))
               @ fmt_0X 2 (int (16 * vg1 + vg2)) @ fmt_0X 2 (int (16 * vr1 + vr2)))"
    by (simp add: hex_to_ass_color_def Let_def slices_of_six py_int16_two_digits)
qed

theorem hex_to_ass_color_six_or_white_witness:
  "length (dropWhile (\<lambda>x. x = CHR ''#'') ''#abc'') \<noteq> 6
   \<and> hex_to_ass_color ''#abc'' 0 = Inr (''&H'' @ fmt_0X 2 0 @ ''FFFFFF'')
   \<and> hex_to_ass_color ''#AABBCC'' 0
       = Inr (''&H'' @ fmt_0X 2 0 @ fmt_0X 2 (int (16 * 12 + 12))
              @ fmt_0X 2 (int (16 * 11 + 11)) @ fmt_0X 2 (int (16 * 10 + 10)))"
proof -
  have short: "length (dropWhile (\<lambda>x. x = CHR ''#'') ''#abc'') \<noteq> 6"
    by simp
  have six: "dropWhile (\<lambda>x. x = CHR ''#'') ''#AABBCC''
               = [CHR ''A'', CHR ''A'', CHR ''B'', CHR ''B'', CHR ''C'', CHR ''C'']
             \<and> hex_val CHR ''A'' = Some 10 \<and> hex_val CHR ''A'' = Some 10
             \<and> hex_val CHR ''B'' = Some 11 \<and> hex_val CHR ''B'' = Some 11
             \<and> hex_val CHR ''C'' = Some 12 \<and> hex_val CHR ''C'' = Some 12"
    by (simp add: hex_val_def)
  from short
    hex_to_ass_color_six_or_white[where h = "''#abc''" and alpha = 0]
  have one: "hex_to_ass_color ''#abc'' 0 = Inr (''&H'' @ fmt_0X 2 0 @ ''FFFFFF'')"
    by blast
  from six
    hex_to_ass_color_six_or_white[where h = "''#AABBCC''" and alpha = 0
      and ?r1.0 = "CHR ''A''" and ?r2.0 = "CHR ''A''" and ?g1.0 = "CHR ''B''"
      and ?g2.0 = "CHR ''B''" and ?b1.0 = "CHR ''C''" and ?b2.0 = "CHR ''C''"
      and ?vr1.0 = 10 and ?vr2.0 = 10 and ?vg1.0 = 11 and ?vg2.0 = 11
      and ?vb1.0 = 12 and ?vb2.0 = 12]
  have two: "hex_to_ass_color ''#AABBCC'' 0
       = Inr (''&H'' @ fmt_0X 2 0 @ fmt_0X 2 (int (16 * 12 + 12))
              @ fmt_0X 2 (int (16 * 11 + 11)) @ fmt_0X 2 (int (16 * 10 + 10)))"
    by blast
  from short one two show ?thesis
    by blast
qed

text \<open>
  Claim C7 as stated fails: \<^verbatim>\<open>#abc\<close> with alpha 0 converts to
  \<^verbatim>\<open>&H00FFFFFF\<close>, not to \<^verbatim>\<open>&H00CCBBAA\<close>.
\<close>

theorem hex_abc_counterexample:
  "hex_to_ass_color ''#abc'' 0 = Inr ''&H00FFFFFF''
   \<and> hex_to_ass_color ''#abc'' 0 \<noteq> Inr ''&H00CCBBAA''"
  by code_simp





section \<open>Properties of the template service\<close>

subsection \<open>Token resolution\<close>

lemma resolve_placeholder:
  "resolve_token c (JStr (''$placeholder.'' @ key)) =
     (let given = dict_get (customizations c) key
      in if truthy given then Inr given
         else py_bind (attr_get (py_or (dict_get (defn c) ''placeholders'') (JDict [])) key)
                (\<lambda>ph. attr_get (py_or ph (JDict [])) ''default''))"
  by (simp add: resolve_token_def Let_def startswith_def)

lemma resolve_token_total:
  assumes "wf_closure c"
  shows "\<exists>r. resolve_token c v = Inr r"
proof (cases v)
  case (JStr s)
  obtain t where t: "theme c = JDict t"
    using assms by (auto simp: wf_closure_def split: json.splits)
  obtain d where d: "py_or (dict_get t ''colors'') (JDict []) = JDict d"
    using assms t by (auto simp: wf_closure_def split: json.splits)
  obtain phs where phs: "py_or (dict_get (defn c) ''placeholders'') (JDict []) = JDict phs"
    and all: "list_all (\<lambda>kv. case py_or (snd kv) (JDict []) of JDict d \<Rightarrow> True | _ \<Rightarrow> False) phs"
    using assms by (auto simp: wf_closure_def split: json.splits)
  have ph: "\<exists>d'. py_or (dict_get phs key) (JDict []) = JDict d'" for key
  proof (cases "map_of phs key")
    case None
    then show ?thesis by (simp add: dict_get_def py_or_def)
  next
    case (Some x)
    then have "(key, x) \<in> set phs" by (rule map_of_SomeD)
    with all have "case py_or x (JDict []) of JDict d \<Rightarrow> True | _ \<Rightarrow> False"
      by (auto simp: list_all_iff)
    with Some show ?thesis by (auto simp: dict_get_def split: json.splits)
  qed
  obtain d' where d':
    "py_or (dict_get phs (drop (length ''$placeholder.'') s)) (JDict []) = JDict d'"
    using ph by blast
  show ?thesis
    using JStr t d phs d'
    by (simp add: resolve_token_def Let_def py_bind_def attr_get_def)
qed (simp_all add: resolve_token_def)

lemma attr_get_error: "attr_get x k = Inl e \<Longrightarrow> e = AttributeError"
  by (cases x) (simp_all add: attr_get_def)

lemma resolve_token_error:
  assumes "resolve_token c v = Inl e"
  shows "e = AttributeError"
proof (cases v)
  case (JStr s)
  with assms show ?thesis
    by (auto simp: resolve_token_def Let_def py_bind_def
        split: if_splits sum.splits json.splits dest: attr_get_error)
qed (use assms in \<open>simp_all add: resolve_token_def\<close>)

text \<open>
  Claim C6, as the code has it.  Token resolution has no missing-field error: a
  \<^verbatim>\<open>$placeholder.<id>\<close> token whose placeholder has no customization value and
  no default resolves to \<^verbatim>\<open>None\<close>, required or not.  On a well-formed closure
  (theme, colours, placeholders and each placeholder are dicts where present)
  resolution of every value returns a result, and the only error resolution can
  raise at all is the AttributeError of calling \<^verbatim>\<open>.get\<close> on a value that is
  not a dict.
\<close>

theorem resolve_token_never_missing_field:
  "(\<not> truthy (dict_get (customizations c) key)
      \<and> dict_get (defn c) ''placeholders'' = JDict phs
      \<and> map_of phs key = Some (JDict ph)
      \<and> map_of ph ''default'' = None
      \<longrightarrow> resolve_token c (JStr (''$placeholder.'' @ key)) = Inr JNull)
   \<and> (wf_closure c \<longrightarrow> (\<exists>r. resolve_token c v = Inr r))
   \<and> (resolve_token c v = Inl e \<longrightarrow> e = AttributeError)"
proof (intro conjI impI)
  assume a: "\<not> truthy (dict_get (customizations c) key)
      \<and> dict_get (defn c) ''placeholders'' = JDict phs
      \<and> map_of phs key = Some (JDict ph)
      \<and> map_of ph ''default'' = None"
  then have "phs \<noteq> []" by auto
  with a show "resolve_token c (JStr (''$placeholder.'' @ key)) = Inr JNull"
    unfolding resolve_placeholder
    by (cases "ph = []")
       (simp_all add: Let_def py_or_def py_bind_def attr_get_def dict_get_def)
next
  assume "wf_closure c"
  then show "\<exists>r. resolve_token c v = Inr r" by (rule resolve_token_total)
next
  assume "resolve_token c v = Inl e"
  then show "e = AttributeError" by (rule resolve_token_error)
qed

theorem resolve_token_never_missing_field_witness:
  "resolve_token
     \<lparr>duration_seconds = JInt 15, theme = JDict [], customizations = [],
      defn = [(''placeholders'', JDict [(''logo'', JDict [(''required'', JBool True)])])],
      width = 1080, height = 1920, fps = 30, tmp_dir = ''/tmp/render''\<rparr>
     (JStr (''$placeholder.'' @ ''logo''))
   = Inr JNull
   \<and> (\<exists>r. resolve_token
     \<lparr>duration_seconds = JInt 15, theme = JDict [], customizations = [],
      defn = [(''placeholders'', JDict [(''logo'', JDict [(''required'', JBool True)])])],
      width = 1080, height = 1920, fps = 30, tmp_dir = ''/tmp/render''\<rparr>
     (JStr ''$theme.colors.bg'') = Inr r)
   \<and> resolve_token
     \<lparr>duration_seconds = JInt 15, theme = JStr ''red'', customizations = [], defn = [],
      width = 1080, height = 1920, fps = 30, tmp_dir = ''/tmp/render''\<rparr>
     (JStr ''$theme.colors.bg'') = Inl AttributeError"
proof -
  let ?c = "\<lparr>duration_seconds = JInt 15, theme = JDict [], customizations = [],
      defn = [(''placeholders'', JDict [(''logo'', JDict [(''required'', JBool True)])])],
      width = 1080, height = 1920, fps = 30, tmp_dir = ''/tmp/render''\<rparr>"
  have hyp: "\<not> truthy (dict_get (customizations ?c) ''logo'')
      \<and> dict_get (defn ?c) ''placeholders'' = JDict [(''logo'', JDict [(''required'', JBool True)])]
      \<and> map_of [(''logo'', JDict [(''required'', JBool True)])] ''logo''
          = Some (JDict [(''required'', JBool True)])
      \<and> map_of [(''required'', JBool True)] ''default'' = None"
    by (simp add: dict_get_def)
  have wf: "wf_closure ?c"
    by (simp add: wf_closure_def dict_get_def py_or_def)
  from hyp
    resolve_token_never_missing_field[where c = ?c and key = "''logo''"
      and phs = "[(''logo'', JDict [(''required'', JBool True)])]"
      and ph = "[(''required'', JBool True)]"]
  have one: "resolve_token ?c (JStr (''$placeholder.'' @ ''logo'')) = Inr JNull"
    by blast
  from wf resolve_token_never_missing_field[where c = ?c and v = "JStr ''$theme.colors.bg''"]
  have two: "\<exists>r. resolve_token ?c (JStr ''$theme.colors.bg'') = Inr r"
    by blast
  obtain e where bad: "resolve_token
     \<lparr>duration_seconds = JInt 15, theme = JStr ''red'', customizations = [], defn = [],
      width = 1080, height = 1920, fps = 30, tmp_dir = ''/tmp/render''\<rparr>
     (JStr ''$theme.colors.bg'') = Inl e"
    by (simp add: resolve_token_def startswith_def attr_get_def py_bind_def)
  from bad
    resolve_token_never_missing_field[where v = "JStr ''$theme.colors.bg''" and e = e
      and c = "\<lparr>duration_seconds = JInt 15, theme = JStr ''red'', customizations = [],
        defn = [], width = 1080, height = 1920, fps = 30, tmp_dir = ''/tmp/render''\<rparr>"]
  have "e = AttributeError"
    by blast
  with bad have three: "resolve_token
     \<lparr>duration_seconds = JInt 15, theme = JStr ''red'', customizations = [], defn = [],
      width = 1080, height = 1920, fps = 30, tmp_dir = ''/tmp/render''\<rparr>
     (JStr ''$theme.colors.bg'') = Inl AttributeError"
    by simp
  from one two three show ?thesis
    by blast
qed

text \<open>
  Claim C6 as stated fails: the token of a required placeholder with no value and
  no default resolves to \<^verbatim>\<open>None\<close>; no error is raised.
\<close>

theorem resolve_required_placeholder_counterexample:
  "resolve_token
     \<lparr>duration_seconds = JInt 15, theme = JDict [], customizations = [],
      defn = [(''placeholders'',
               JDict [(''logo'', JDict [(''type'', JStr ''image''), (''required'', JBool True)])])],
      width = 1080, height = 1920, fps = 30, tmp_dir = ''/tmp/render''\<rparr>
     (JStr ''$placeholder.logo'')
   = Inr JNull"
  by code_simp

subsection \<open>Starting a render\<close>

text \<open>
  Claim C2, as the code has it.  The start is not guarded on the current status:
  for an existing job of a user with credits left, whatever the job's status, the
  start succeeds, sets the status to \<^verbatim>\<open>rendering\<close> and takes one credit; a
  second start on the same job succeeds in the same way.
\<close>

theorem start_render_unguarded:
  assumes "0 < credits_remaining u"
  shows "start_render (Some ut) u
           = Inr (ut\<lparr>status := ''rendering''\<rparr>,
                  u\<lparr>credits_remaining := credits_remaining u - 1\<rparr>)
         \<and> (1 < credits_remaining u \<longrightarrow>
              start_render (Some (ut\<lparr>status := ''rendering''\<rparr>))
                (u\<lparr>credits_remaining := credits_remaining u - 1\<rparr>)
              = Inr (ut\<lparr>status := ''rendering''\<rparr>,
                     u\<lparr>credits_remaining := credits_remaining u - 2\<rparr>))"
  using assms by (simp add: start_render_def)

theorem start_render_unguarded_witness:
  "start_render
     (Some \<lparr>title = ''reel'', user_id = ''u1'', ut_customizations = [], status = ''draft'',
            render_progress = 0, output_url = None, thumbnail_url = None,
            error_message = None\<rparr>)
     \<lparr>credits_remaining = 5, subscription_tier = ''free''\<rparr>
   = Inr (\<lparr>title = ''reel'', user_id = ''u1'', ut_customizations = [], status = ''rendering'',
            render_progress = 0, output_url = None, thumbnail_url = None,
            error_message = None\<rparr>,
          \<lparr>credits_remaining = 4, subscription_tier = ''free''\<rparr>)
   \<and> start_render
     (Some \<lparr>title = ''reel'', user_id = ''u1'', ut_customizations = [], status = ''rendering'',
            render_progress = 0, output_url = None, thumbnail_url = None,
            error_message = None\<rparr>)
     \<lparr>credits_remaining = 4, subscription_tier = ''free''\<rparr>
   = Inr (\<lparr>title = ''reel'', user_id = ''u1'', ut_customizations = [], status = ''rendering'',
            render_progress = 0, output_url = None, thumbnail_url = None,
            error_message = None\<rparr>,
          \<lparr>credits_remaining = 3, subscription_tier = ''free''\<rparr>)"
proof -
  let ?ut = "\<lparr>title = ''reel'', user_id = ''u1'', ut_customizations = [], status = ''draft'',
            render_progress = 0, output_url = None, thumbnail_url = None,
            error_message = None\<rparr>"
  let ?u = "\<lparr>credits_remaining = 5, subscription_tier = ''free''\<rparr>"
  have a: "0 < credits_remaining ?u" by simp
  have b: "1 < credits_remaining ?u" by simp
  from start_render_unguarded[OF a, of ?ut] b show ?thesis
    by simp
qed

text \<open>
  Claim C2 as stated fails: starting a render on a completed job raises no error
  and changes its status to \<^verbatim>\<open>rendering\<close>.
\<close>

theorem start_render_completed_counterexample:
  "start_render
     (Some \<lparr>title = ''reel'', user_id = ''u1'', ut_customizations = [], status = ''completed'',
            render_progress = 100, output_url = Some ''https://cdn/renders/u1/reel.mp4'',
            thumbnail_url = Some ''https://cdn/renders/u1/reel_thumb.jpg'',
            error_message = None\<rparr>)
     \<lparr>credits_remaining = 5, subscription_tier = ''free''\<rparr>
   = Inr (\<lparr>title = ''reel'', user_id = ''u1'', ut_customizations = [], status = ''rendering'',
            render_progress = 100, output_url = Some ''https://cdn/renders/u1/reel.mp4'',
            thumbnail_url = Some ''https://cdn/renders/u1/reel_thumb.jpg'',
            error_message = None\<rparr>,
          \<lparr>credits_remaining = 4, subscription_tier = ''free''\<rparr>)"
  by (simp add: start_render_def)

subsection \<open>The output URL of a job\<close>

lemma render_template_keeps_invariant:
  assumes "output_url ut = None" and "status ut \<noteq> ''completed''"
  shows "\<forall>s \<in> set (render_template w (Some ut) found_template output_format quality).
           output_iff_completed s"
  using assms
  by (auto simp: render_template_def output_iff_completed_def failed_with_def Let_def
      split: option.splits sum.splits prod.splits)

lemma first_render_trace:
  "render_template
     \<lparr>world_tmp_dir = ''/tmp/render'', http_get = (\<lambda>url. Inl HTTPStatusError),
      write_file = (\<lambda>p d. None), run_ffmpeg = (\<lambda>cmd. (0, [])),
      read_file = (\<lambda>p. Inr ''data''),
      upload_file_content = (\<lambda>d f folder. Inr (''https://cdn/'' @ folder @ ''/'' @ f))\<rparr>
     (Some \<lparr>title = ''reel'', user_id = ''u1'', ut_customizations = [], status = ''rendering'',
            render_progress = 0, output_url = None, thumbnail_url = None,
            error_message = None\<rparr>)
     (Some \<lparr>template_data = [], template_duration_seconds = 15, template_fps = 30,
            template_width = 1080, template_height = 1920\<rparr>)
     ''mp4'' ''high''
   = [\<lparr>title = ''reel'', user_id = ''u1'', ut_customizations = [], status = ''rendering'',
       render_progress = 10, output_url = None, thumbnail_url = None, error_message = None\<rparr>,
      \<lparr>title = ''reel'', user_id = ''u1'', ut_customizations = [], status = ''rendering'',
       render_progress = 40, output_url = None, thumbnail_url = None, error_message = None\<rparr>,
      \<lparr>title = ''reel'', user_id = ''u1'', ut_customizations = [], status = ''rendering'',
       render_progress = 80, output_url = None, thumbnail_url = None, error_message = None\<rparr>,
      \<lparr>title = ''reel'', user_id = ''u1'', ut_customizations = [], status = ''completed'',
       render_progress = 100, output_url = Some ''https://cdn/renders/u1/reel.mp4'',
       thumbnail_url = Some ''https://cdn/renders/u1/reel_thumb.jpg'',
       error_message = None\<rparr>]"
  by code_simp

text \<open>
  Claim C5, as the code has it.  For a job created by \<^verbatim>\<open>use_template\<close> and
  started once, the output URL is set if and only if the status is
  \<^verbatim>\<open>completed\<close> in the created state, in the started state and in every state
  the render commits (progress updates, failure, completion).
\<close>

theorem first_render_output_iff_completed:
  assumes "use_template found cu uid ttl customs = Inr ut0"
    and "start_render (Some ut0) cu = Inr (ut1, cu')"
  shows "\<forall>s \<in> set (ut0 # ut1 # render_template w (Some ut1) found_template output_format quality).
           output_iff_completed s"
proof -
  from assms(1) have ut0: "output_url ut0 = None" "status ut0 = ''draft''"
    by (auto simp: use_template_def split: option.splits prod.splits if_splits)
  from assms(2) have ut1: "ut1 = ut0\<lparr>status := ''rendering''\<rparr>"
    by (auto simp: start_render_def split: if_splits)
  have "output_iff_completed ut0" "output_iff_completed ut1"
    using ut0 ut1 by (simp_all add: output_iff_completed_def)
  moreover have "\<forall>s \<in> set (render_template w (Some ut1) found_template output_format quality).
           output_iff_completed s"
    using ut0 ut1 by (intro render_template_keeps_invariant) simp_all
  ultimately show ?thesis
    by simp
qed

theorem first_render_output_iff_completed_witness:
  "output_iff_completed
     \<lparr>title = ''reel'', user_id = ''u1'', ut_customizations = [], status = ''draft'',
      render_progress = 0, output_url = None, thumbnail_url = None, error_message = None\<rparr>
   \<and> output_iff_completed
     \<lparr>title = ''reel'', user_id = ''u1'', ut_customizations = [], status = ''rendering'',
      render_progress = 80, output_url = None, thumbnail_url = None, error_message = None\<rparr>
   \<and> output_iff_completed
     \<lparr>title = ''reel'', user_id = ''u1'', ut_customizations = [], status = ''completed'',
      render_progress = 100, output_url = Some ''https://cdn/renders/u1/reel.mp4'',
      thumbnail_url = Some ''https://cdn/renders/u1/reel_thumb.jpg'', error_message = None\<rparr>"
proof -
  let ?t = "\<lparr>template_data = [], template_duration_seconds = 15, template_fps = 30,
            template_width = 1080, template_height = 1920\<rparr>"
  let ?u = "\<lparr>credits_remaining = 5, subscription_tier = ''free''\<rparr>"
  let ?ut0 = "\<lparr>title = ''reel'', user_id = ''u1'', ut_customizations = [], status = ''draft'',
      render_progress = 0, output_url = None, thumbnail_url = None, error_message = None\<rparr>"
  let ?ut1 = "\<lparr>title = ''reel'', user_id = ''u1'', ut_customizations = [], status = ''rendering'',
      render_progress = 0, output_url = None, thumbnail_url = None, error_message = None\<rparr>"
  have a: "use_template (Some (?t, False)) ?u ''u1'' ''reel'' [] = Inr ?ut0"
    by (simp add: use_template_def)
  have b: "start_render (Some ?ut0) ?u
             = Inr (?ut1, \<lparr>credits_remaining = 4, subscription_tier = ''free''\<rparr>)"
    by (simp add: start_render_def)
  from first_render_output_iff_completed[OF a b, where found_template = "Some ?t"
      and output_format = "''mp4''" and quality = "''high''"
      and w = "\<lparr>world_tmp_dir = ''/tmp/render'', http_get = (\<lambda>url. Inl HTTPStatusError),
        write_file = (\<lambda>p d. None), run_ffmpeg = (\<lambda>cmd. (0, [])),
        read_file = (\<lambda>p. Inr ''data''),
        upload_file_content = (\<lambda>d f folder. Inr (''https://cdn/'' @ folder @ ''/'' @ f))\<rparr>"]
  show ?thesis
    unfolding first_render_trace by simp
qed

text \<open>
  Claim C5 as stated fails: a completed job that is started again is in status
  \<^verbatim>\<open>rendering\<close> with its previous output URL still set.
\<close>

theorem restarted_job_keeps_output_url_counterexample:
  "last (render_template
     \<lparr>world_tmp_dir = ''/tmp/render'', http_get = (\<lambda>url. Inl HTTPStatusError),
      write_file = (\<lambda>p d. None), run_ffmpeg = (\<lambda>cmd. (0, [])),
      read_file = (\<lambda>p. Inr ''data''),
      upload_file_content = (\<lambda>d f folder. Inr (''https://cdn/'' @ folder @ ''/'' @ f))\<rparr>
     (Some \<lparr>title = ''reel'', user_id = ''u1'', ut_customizations = [], status = ''rendering'',
            render_progress = 0, output_url = None, thumbnail_url = None,
            error_message = None\<rparr>)
     (Some \<lparr>template_data = [], template_duration_seconds = 15, template_fps = 30,
            template_width = 1080, template_height = 1920\<rparr>)
     ''mp4'' ''high'')
   = \<lparr>title = ''reel'', user_id = ''u1'', ut_customizations = [], status = ''completed'',
      render_progress = 100, output_url = Some ''https://cdn/renders/u1/reel.mp4'',
      thumbnail_url = Some ''https://cdn/renders/u1/reel_thumb.jpg'', error_message = None\<rparr>
   \<and> start_render
     (Some \<lparr>title = ''reel'', user_id = ''u1'', ut_customizations = [], status = ''completed'',
            render_progress = 100, output_url = Some ''https://cdn/renders/u1/reel.mp4'',
            thumbnail_url = Some ''https://cdn/renders/u1/reel_thumb.jpg'',
            error_message = None\<rparr>)
     \<lparr>credits_remaining = 4, subscription_tier = ''free''\<rparr>
   = Inr (\<lparr>title = ''reel'', user_id = ''u1'', ut_customizations = [], status = ''rendering'',
            render_progress = 100, output_url = Some ''https://cdn/renders/u1/reel.mp4'',
            thumbnail_url = Some ''https://cdn/renders/u1/reel_thumb.jpg'',
            error_message = None\<rparr>,
          \<lparr>credits_remaining = 3, subscription_tier = ''free''\<rparr>)
   \<and> \<not> output_iff_completed
     \<lparr>title = ''reel'', user_id = ''u1'', ut_customizations = [], status = ''rendering'',
      render_progress = 100, output_url = Some ''https://cdn/renders/u1/reel.mp4'',
      thumbnail_url = Some ''https://cdn/renders/u1/reel_thumb.jpg'', error_message = None\<rparr>"
  unfolding first_render_trace
  by (simp add: start_render_def output_iff_completed_def)

subsection \<open>Layers in z order\<close>

lemma sequence_e_map_Inr: "sequence_e (map Inr ys) = Inr ys"
  by (induction ys) simp_all

lemma sequence_e_Inr_D: "sequence_e xs = Inr ys \<Longrightarrow> xs = map Inr ys"
proof (induction xs arbitrary: ys)
  case Nil
  then show ?case by simp
next
  case (Cons x xs)
  then show ?case
    by (cases x; cases "sequence_e xs") auto
qed

lemma sequence_e_Inr_iff: "sequence_e xs = Inr ys \<longleftrightarrow> xs = map Inr ys"
  using sequence_e_map_Inr sequence_e_Inr_D by blast

lemma map_Inr_keys:
  assumes "map f xs = map Inr keys"
  shows "\<forall>l \<in> set xs. f l = Inr (projr (f l))"
proof
  fix l assume "l \<in> set xs"
  then have "f l \<in> set (map f xs)" by simp
  then have "f l \<in> set (map Inr keys)" by (simp only: assms)
  then obtain k where "f l = Inr k" by auto
  then show "f l = Inr (projr (f l))" by simp
qed

lemma insort_key_pair:
  "insort_key fst (g x, x) (map (\<lambda>l. (g l, l)) xs) = map (\<lambda>l. (g l, l)) (insort_key g x xs)"
  by (induction xs) simp_all

lemma sort_key_pair:
  "sort_key fst (map (\<lambda>l. (g l, l)) xs) = map (\<lambda>l. (g l, l)) (sort_key g xs)"
  by (induction xs) (simp_all add: insort_key_pair)

lemma zip_map_self: "zip (map g xs) xs = map (\<lambda>l. (g l, l)) xs"
  by (induction xs) simp_all

lemma sorted_layers_eq:
  "sorted_layers layers =
     (case sequence_e (map z_key (dict_layers layers)) of
        Inl e \<Rightarrow> Inl e
      | Inr keys \<Rightarrow> Inr (sort_key (\<lambda>l. projr (z_key l)) (dict_layers layers)))"
proof (cases "sequence_e (map z_key (dict_layers layers))")
  case (Inl e)
  then show ?thesis by (simp add: sorted_layers_def py_bind_def)
next
  case (Inr keys)
  then have "map z_key (dict_layers layers) = map Inr keys"
    by (simp add: sequence_e_Inr_iff)
  then have "map projr (map z_key (dict_layers layers)) = map projr (map Inr keys)"
    by simp
  then have keys: "keys = map (\<lambda>l. projr (z_key l)) (dict_layers layers)"
    by (simp add: comp_def)
  show ?thesis
    using Inr
    by (simp add: sorted_layers_def py_bind_def Let_def keys zip_map_self sort_key_pair comp_def)
qed

lemma sorted_layers_keys:
  assumes "sorted_layers layers = Inr sl"
  shows "\<forall>l \<in> set (dict_layers layers). z_key l = Inr (projr (z_key l))"
proof -
  from assms obtain keys where "sequence_e (map z_key (dict_layers layers)) = Inr keys"
    by (auto simp: sorted_layers_eq split: sum.splits)
  then have "map z_key (dict_layers layers) = map Inr keys"
    by (simp add: sequence_e_Inr_iff)
  then show ?thesis
    by (rule map_Inr_keys)
qed

lemma two_layers_sorted:
  assumes "z_key la = Inr 2" and "z_key lb = Inr 1"
  shows "sorted_layers [JDict la, JDict lb] = Inr [lb, la]"
  using assms by (simp add: sorted_layers_eq dict_layers_def)

text \<open>
  Claim C9.  When the z keys of all layers can be computed, the layers are composited
  in ascending z order by a stable sort: the sorted list is ordered by z, is a
  permutation of the declared dict layers, keeps the declaration order among the
  layers of each z value, and the filter chain is built by going through it from
  first to last.  For two layers declared with z = 2 first and z = 1 second, the
  z = 1 layer is laid onto the background first and the z = 2 layer onto the result.
\<close>

theorem layers_composited_in_stable_z_order:
  "(sorted_layers layers = Inr sl \<longrightarrow>
      sorted (map (\<lambda>l. projr (z_key l)) sl)
      \<and> mset sl = mset (dict_layers layers)
      \<and> (\<forall>k. filter (\<lambda>l. z_key l = Inr k) sl
               = filter (\<lambda>l. z_key l = Inr k) (dict_layers layers))
      \<and> build_filter_graph c asset_paths layers
          = py_bind (build_inputs c asset_paths layers) (\<lambda>ins.
            py_bind (fold_e (overlay_step c (input_index_by_layer_id ins)) initial_chain sl)
              (\<lambda>ch. Inr (ins, ch))))
   \<and> (z_key la = Inr 2 \<and> z_key lb = Inr 1 \<longrightarrow>
        sorted_layers [JDict la, JDict lb] = Inr [lb, la]
        \<and> build_filter_graph c asset_paths [JDict la, JDict lb]
            = py_bind (build_inputs c asset_paths [JDict la, JDict lb]) (\<lambda>ins.
              py_bind (overlay_step c (input_index_by_layer_id ins) initial_chain lb) (\<lambda>ch1.
              py_bind (overlay_step c (input_index_by_layer_id ins) ch1 la) (\<lambda>ch2.
                Inr (ins, ch2)))))
   \<and> ((\<forall>l \<in> set (dict_layers layers). \<exists>k. z_key l = Inr k) \<longrightarrow>
        (\<exists>sl'. sorted_layers layers = Inr sl'))"
proof (intro conjI impI allI)
  assume sl: "sorted_layers layers = Inr sl"
  let ?g = "\<lambda>l. projr (z_key l)"
  from sl have eq: "sl = sort_key ?g (dict_layers layers)"
    by (auto simp: sorted_layers_eq split: sum.splits)
  show "sorted (map ?g sl)"
    by (simp add: eq)
  show "mset sl = mset (dict_layers layers)"
    by (simp add: eq)
  show "filter (\<lambda>l. z_key l = Inr k) sl = filter (\<lambda>l. z_key l = Inr k) (dict_layers layers)" for k
  proof -
    have keys: "\<forall>l \<in> set (dict_layers layers). z_key l = Inr (?g l)"
      using sl by (rule sorted_layers_keys)
    have "filter (\<lambda>l. z_key l = Inr k) sl = filter (\<lambda>l. ?g l = k) sl"
      using keys by (intro filter_cong) (auto simp: eq)
    also have "\<dots> = filter (\<lambda>l. ?g l = k) (dict_layers layers)"
      unfolding eq by (rule sort_key_stable)
    also have "\<dots> = filter (\<lambda>l. z_key l = Inr k) (dict_layers layers)"
      using keys by (intro filter_cong) auto
    finally show ?thesis .
  qed
  show "build_filter_graph c asset_paths layers
          = py_bind (build_inputs c asset_paths layers) (\<lambda>ins.
            py_bind (fold_e (overlay_step c (input_index_by_layer_id ins)) initial_chain sl)
              (\<lambda>ch. Inr (ins, ch)))"
    by (simp add: build_filter_graph_def sl py_bind_def)
next
  assume z: "z_key la = Inr 2 \<and> z_key lb = Inr 1"
  then show two: "sorted_layers [JDict la, JDict lb] = Inr [lb, la]"
    by (simp add: two_layers_sorted)
  show "build_filter_graph c asset_paths [JDict la, JDict lb]
            = py_bind (build_inputs c asset_paths [JDict la, JDict lb]) (\<lambda>ins.
              py_bind (overlay_step c (input_index_by_layer_id ins) initial_chain lb) (\<lambda>ch1.
              py_bind (overlay_step c (input_index_by_layer_id ins) ch1 la) (\<lambda>ch2.
                Inr (ins, ch2))))"
    by (simp add: build_filter_graph_def two py_bind_def split: sum.splits)
next
  assume all: "\<forall>l \<in> set (dict_layers layers). \<exists>k. z_key l = Inr k"
  have "z_key l = Inr (projr (z_key l))" if "l \<in> set (dict_layers layers)" for l
  proof -
    from all that obtain k where "z_key l = Inr k" by blast
    then show ?thesis by simp
  qed
  then have "map z_key (dict_layers layers) = map Inr (map (\<lambda>l. projr (z_key l)) (dict_layers layers))"
    by simp
  then have "sequence_e (map z_key (dict_layers layers))
               = Inr (map (\<lambda>l. projr (z_key l)) (dict_layers layers))"
    by (simp only: sequence_e_Inr_iff)
  then show "\<exists>sl'. sorted_layers layers = Inr sl'"
    by (simp add: sorted_layers_eq)
qed

theorem layers_composited_in_stable_z_order_witness:
  "sorted_layers [JDict [(''id'', JStr ''logo''), (''type'', JStr ''image''), (''z'', JInt 2),
      (''source'', JStr ''$placeholder.logo'')], JDict [(''id'', JStr ''hero''), (''type'', JStr ''image''), (''z'', JInt 1),
      (''source'', JStr ''$placeholder.hero'')]] = Inr [[(''id'', JStr ''hero''), (''type'', JStr ''image''), (''z'', JInt 1),
      (''source'', JStr ''$placeholder.hero'')], [(''id'', JStr ''logo''), (''type'', JStr ''image''), (''z'', JInt 2),
      (''source'', JStr ''$placeholder.logo'')]]
   \<and> (case build_filter_graph \<lparr>duration_seconds = JInt 15, theme = JDict [],
      customizations = [(''hero'', JStr ''http://cdn.example/hero.png''),
                        (''logo'', JStr ''http://cdn.example/logo.png'')],
      defn = [], width = 1080, height = 1920, fps = 30, tmp_dir = ''/tmp/render''\<rparr>
              [(''hero'', ''/tmp/render/hero.png''), (''logo'', ''/tmp/render/logo.png'')]
              [JDict [(''id'', JStr ''logo''), (''type'', JStr ''image''), (''z'', JInt 2),
      (''source'', JStr ''$placeholder.logo'')], JDict [(''id'', JStr ''hero''), (''type'', JStr ''image''), (''z'', JInt 1),
      (''source'', JStr ''$placeholder.hero'')]] of
         Inr (ins, ch) \<Rightarrow>
           input_index_by_layer_id ins = [(JStr ''logo'', 1), (JStr ''hero'', 2)]
           \<and> map hd (filter_lines ch)
               = [S ''[0:v]format=rgba[base]'',
                  S ''[2:v]format=rgba[ov0]'',
                  S (''[base][ov0]overlay=x=0:y=0:enable='' @ [CHR 0x27]),
                  S ''[1:v]format=rgba[ov1]'',
                  S (''[v0][ov1]overlay=x=0:y=0:enable='' @ [CHR 0x27])]
           \<and> current_label ch = ''[v1]''
       | Inl e \<Rightarrow> False)"
proof -
  let ?logo = "[(''id'', JStr ''logo''), (''type'', JStr ''image''), (''z'', JInt 2),
      (''source'', JStr ''$placeholder.logo'')]"
  let ?hero = "[(''id'', JStr ''hero''), (''type'', JStr ''image''), (''z'', JInt 1),
      (''source'', JStr ''$placeholder.hero'')]"
  let ?c = "\<lparr>duration_seconds = JInt 15, theme = JDict [],
      customizations = [(''hero'', JStr ''http://cdn.example/hero.png''),
                        (''logo'', JStr ''http://cdn.example/logo.png'')],
      defn = [], width = 1080, height = 1920, fps = 30, tmp_dir = ''/tmp/render''\<rparr>"
  let ?ap = "[(''hero'', ''/tmp/render/hero.png''), (''logo'', ''/tmp/render/logo.png'')]"
  have z: "z_key ?logo = Inr 2 \<and> z_key ?hero = Inr 1"
    by code_simp
  have keys: "\<forall>l \<in> set (dict_layers [JDict ?logo, JDict ?hero]). \<exists>k. z_key l = Inr k"
    using z by (simp add: dict_layers_def)
  note inst = layers_composited_in_stable_z_order[where la = ?logo and lb = ?hero and c = ?c
      and asset_paths = ?ap and layers = "[JDict ?logo, JDict ?hero]" and sl = "[?hero, ?logo]"]
  from z inst have two: "sorted_layers [JDict ?logo, JDict ?hero] = Inr [?hero, ?logo]"
    by blast
  from z inst have graph: "build_filter_graph ?c ?ap [JDict ?logo, JDict ?hero]
            = py_bind (build_inputs ?c ?ap [JDict ?logo, JDict ?hero]) (\<lambda>ins.
              py_bind (overlay_step ?c (input_index_by_layer_id ins) initial_chain ?hero) (\<lambda>ch1.
              py_bind (overlay_step ?c (input_index_by_layer_id ins) ch1 ?logo) (\<lambda>ch2.
                Inr (ins, ch2))))"
    by blast
  from keys inst have "\<exists>sl'. sorted_layers [JDict ?logo, JDict ?hero] = Inr sl'"
    by blast
  from two inst have "sorted (map (\<lambda>l. projr (z_key l)) [?hero, ?logo])"
    by blast
  have run: "(case py_bind (build_inputs ?c ?ap [JDict ?logo, JDict ?hero]) (\<lambda>ins.
              py_bind (overlay_step ?c (input_index_by_layer_id ins) initial_chain ?hero) (\<lambda>ch1.
              py_bind (overlay_step ?c (input_index_by_layer_id ins) ch1 ?logo) (\<lambda>ch2.
                Inr (ins, ch2)))) of
         Inr (ins, ch) \<Rightarrow>
           input_index_by_layer_id ins = [(JStr ''logo'', 1), (JStr ''hero'', 2)]
           \<and> map hd (filter_lines ch)
               = [S ''[0:v]format=rgba[base]'',
                  S ''[2:v]format=rgba[ov0]'',
                  S (''[base][ov0]overlay=x=0:y=0:enable='' @ [CHR 0x27]),
                  S ''[1:v]format=rgba[ov1]'',
                  S (''[v0][ov1]overlay=x=0:y=0:enable='' @ [CHR 0x27])]
           \<and> current_label ch = ''[v1]''
       | Inl e \<Rightarrow> False)"
    by code_simp
  from two run show ?thesis
    unfolding graph by blast
qed

subsection \<open>Layers without a prepared asset\<close>












end
